theory Spec2Isabelle
  imports Main "HOL-Library.Word"
begin

text \<open>
  A model of \<open>app.py\<close>, the webhook that turns LINE WORKS messages into Backlog
  issues: the token cache, the user lookup, the ticket creation and the \<open>/callback\<close>
  handler, each a function from the state before to a result and the state after. The
  libraries the module calls (\<open>requests\<close>, \<open>jwt\<close>, \<open>hmac\<close>, \<open>time\<close>, Flask) are
  represented by their outcomes. Of the calls of \<open>print\<close>, the one at line 146 writes a
  value taken from a response and is modelled; the others write constants, the text of
  an exception, the decoded text of a response or ASCII JSON, and are left out.
\<close>

section \<open>Python values\<close>

text \<open>
  A Python \<open>str\<close> is a sequence of Unicode code points and a \<open>bytes\<close> object a sequence
  of octets. \<open>ascii\<close> turns an ASCII literal of the source into the \<open>str\<close> it denotes.
\<close>

type_synonym pystr = "nat list"
type_synonym bytes = "8 word list"

definition ascii :: "string \<Rightarrow> pystr" where
  "ascii s = map of_char s"

text \<open>
  The values that flow through \<open>app.py\<close>: what \<open>json\<close> parsing produces (\<open>None\<close>, \<open>bool\<close>,
  \<open>int\<close>, \<open>str\<close>, \<open>list\<close>, \<open>dict\<close>) and what \<open>os.getenv\<close> returns (\<open>None\<close> or a \<open>str\<close>).
  JSON numbers with a fraction or an exponent (Python floats) are not represented.
  A \<open>dict\<close> is an association list read with \<open>map_of\<close>.
\<close>

datatype pyval =
    PNone
  | PBool bool
  | PInt int
  | PStr pystr
  | PList "pyval list"
  | PDict "(pystr \<times> pyval) list"

text \<open>
  The exceptions the module can meet. \<open>HTTPException n\<close> is what Flask's \<open>abort(n)\<close> raises
  (and what \<open>request.get_json()\<close> raises on a body it cannot parse).
\<close>

datatype pyexn =
    KeyError
  | TypeError
  | AttributeError
  | UnboundLocalError
  | UnicodeEncodeError
  | HTTPException nat

text \<open>Truth value testing, as \<open>if x\<close>, \<open>not x\<close>, \<open>x and y\<close> and \<open>all([...])\<close> apply it.\<close>

fun truthy :: "pyval \<Rightarrow> bool" where
  "truthy PNone = False"
| "truthy (PBool b) = b"
| "truthy (PInt n) = (n \<noteq> 0)"
| "truthy (PStr s) = (s \<noteq> [])"
| "truthy (PList xs) = (xs \<noteq> [])"
| "truthy (PDict kvs) = (kvs \<noteq> [])"

text \<open>\<open>x.get(k, d)\<close>: only a \<open>dict\<close> has the method.\<close>

fun dict_get :: "pyval \<Rightarrow> pystr \<Rightarrow> pyval \<Rightarrow> pyexn + pyval" where
  "dict_get (PDict kvs) k d = Inr (case map_of kvs k of None \<Rightarrow> d | Some v \<Rightarrow> v)"
| "dict_get PNone k d = Inl AttributeError"
| "dict_get (PBool b) k d = Inl AttributeError"
| "dict_get (PInt n) k d = Inl AttributeError"
| "dict_get (PStr s) k d = Inl AttributeError"
| "dict_get (PList xs) k d = Inl AttributeError"

text \<open>\<open>x[k]\<close> with a \<open>str\<close> key: \<open>KeyError\<close> on a \<open>dict\<close> without the key, \<open>TypeError\<close> on
  anything that is not a \<open>dict\<close>.\<close>

fun getitem :: "pyval \<Rightarrow> pystr \<Rightarrow> pyexn + pyval" where
  "getitem (PDict kvs) k = (case map_of kvs k of None \<Rightarrow> Inl KeyError | Some v \<Rightarrow> Inr v)"
| "getitem PNone k = Inl TypeError"
| "getitem (PBool b) k = Inl TypeError"
| "getitem (PInt n) k = Inl TypeError"
| "getitem (PStr s) k = Inl TypeError"
| "getitem (PList xs) k = Inl TypeError"

text \<open>\<open>n + x\<close> for an \<open>int\<close> \<open>n\<close>: \<open>bool\<close> is a subclass of \<open>int\<close>, every other type raises.\<close>

fun int_add :: "int \<Rightarrow> pyval \<Rightarrow> pyexn + int" where
  "int_add n (PInt m) = Inr (n + m)"
| "int_add n (PBool b) = Inr (n + (if b then 1 else 0))"
| "int_add n PNone = Inl TypeError"
| "int_add n (PStr s) = Inl TypeError"
| "int_add n (PList xs) = Inl TypeError"
| "int_add n (PDict kvs) = Inl TypeError"

text \<open>A value of \<open>os.getenv\<close> as a Python value.\<close>

fun getenv_val :: "pystr option \<Rightarrow> pyval" where
  "getenv_val None = PNone"
| "getenv_val (Some s) = PStr s"

text \<open>\<open>s.encode('utf-8')\<close>; \<open>None\<close> is \<open>UnicodeEncodeError\<close> (a surrogate code point).\<close>

definition utf8_char :: "nat \<Rightarrow> bytes option" where
  "utf8_char c =
     (if c < 0x80 then Some [of_nat c]
      else if c < 0x800 then Some [of_nat (0xC0 + c div 64), of_nat (0x80 + c mod 64)]
      else if 0xD800 \<le> c \<and> c < 0xE000 then None
      else if c < 0x10000 then
        Some [of_nat (0xE0 + c div 4096), of_nat (0x80 + c div 64 mod 64),
              of_nat (0x80 + c mod 64)]
      else if c < 0x110000 then
        Some [of_nat (0xF0 + c div 262144), of_nat (0x80 + c div 4096 mod 64),
              of_nat (0x80 + c div 64 mod 64), of_nat (0x80 + c mod 64)]
      else None)"

fun utf8_encode :: "pystr \<Rightarrow> bytes option" where
  "utf8_encode [] = Some []"
| "utf8_encode (c # cs) =
     (case utf8_char c of
        None \<Rightarrow> None
      | Some bs \<Rightarrow> (case utf8_encode cs of None \<Rightarrow> None | Some rest \<Rightarrow> Some (bs @ rest)))"

text \<open>\<open>print(s)\<close> on a UTF-8 standard output: \<open>UnicodeEncodeError\<close> for a \<open>str\<close> that
  cannot be encoded.\<close>

definition print_str :: "pystr \<Rightarrow> pyexn + unit" where
  "print_str s = (case utf8_encode s of None \<Rightarrow> Inl UnicodeEncodeError | Some bs \<Rightarrow> Inr ())"

section \<open>Configuration, environment and state\<close>

text \<open>The module's globals read from the environment (lines 19 to 31);
  \<open>LINEWORKS_PRIVATE_KEY\<close> is the value after the replacement of line 31.\<close>

record config =
  BACKLOG_SPACE_ID :: "pystr option"
  BACKLOG_API_KEY :: "pystr option"
  BACKLOG_PROJECT_ID :: "pystr option"
  BACKLOG_ISSUE_TYPE_ID :: "pystr option"
  BACKLOG_PRIORITY_ID :: "pystr option"
  LINEWORKS_BOT_SECRET :: "pystr option"
  LINEWORKS_CLIENT_ID :: "pystr option"
  LINEWORKS_CLIENT_SECRET :: "pystr option"
  LINEWORKS_SERVICE_ACCOUNT :: "pystr option"
  LINEWORKS_PRIVATE_KEY :: pystr

record jwt_payload =
  iss :: pyval
  sub :: pyval
  iat :: int
  exp :: int

text \<open>
  An outbound request of the \<open>requests\<close> library, by the way the source calls it:
  \<open>post(url, headers=, data=)\<close>, \<open>get(url, headers=)\<close> and \<open>post(url, params=, json=)\<close>.
\<close>

datatype http_request =
    PostForm pystr "(pystr \<times> pystr) list" "(pystr \<times> pyval) list"
  | Get pystr "(pystr \<times> pystr) list"
  | PostJson pystr "(pystr \<times> pyval) list" "(pystr \<times> pyval) list"

text \<open>
  What comes back: either the call raises a \<open>RequestException\<close> (connection error, timeout,
  invalid URL) and no response object exists, or it returns a response with a status code
  and a body. \<open>json_body = None\<close> stands for a body on which \<open>response.json()\<close> raises
  \<open>requests.exceptions.JSONDecodeError\<close>, a \<open>RequestException\<close> (requests 2.27 and
  later).
\<close>

record response =
  status_code :: nat
  json_body :: "pyval option"

datatype http_outcome = RequestException | Response response

text \<open>\<open>response.raise_for_status()\<close> raises \<open>HTTPError\<close> on a 4xx or 5xx status.\<close>

definition raise_for_status :: "response \<Rightarrow> bool" where
  "raise_for_status r = (400 \<le> status_code r \<and> status_code r < 600)"

text \<open>
  The world outside the module, fixed for one call: the clock \<open>int(time.time())\<close>, the
  outcome of \<open>jwt.encode\<close> (\<open>None\<close> when it raises), the outcome of each HTTP request,
  the HMAC-SHA256 digest function (key first, then message) and \<open>str()\<close> of a value
  that is not a \<open>str\<close>, as an f-string applies it.
\<close>

record env =
  time_time :: int
  jwt_encode :: "jwt_payload \<Rightarrow> pystr \<Rightarrow> pystr option"
  requests :: "http_request \<Rightarrow> http_outcome"
  hmac_sha256 :: "bytes \<Rightarrow> bytes \<Rightarrow> bytes"
  str_of :: "pyval \<Rightarrow> pystr"

text \<open>A replacement field \<open>{x}\<close> of an f-string: a \<open>str\<close> is inserted as it is.\<close>

definition fmt :: "env \<Rightarrow> pyval \<Rightarrow> pystr" where
  "fmt e v = (case v of PStr s \<Rightarrow> s | _ \<Rightarrow> str_of e v)"

text \<open>
  The state: the global \<open>access_token_cache\<close> (lines 36 to 39) and a trace of what the
  module did, newest event last: each \<open>jwt.encode\<close>, each HTTP request, and each call of
  \<open>create_backlog_issue\<close> with its arguments.
\<close>

record cache =
  token :: pyval
  expires_at :: int

datatype event =
    JwtEncode jwt_payload pystr
  | Http http_request
  | CreateBacklogIssue pystr pyval

record state =
  access_token_cache :: cache
  trace :: "event list"

definition initial_cache :: cache where
  "initial_cache = \<lparr>token = PNone, expires_at = 0\<rparr>"

definition emit :: "event \<Rightarrow> state \<Rightarrow> state" where
  "emit ev st = st\<lparr>trace := trace st @ [ev]\<rparr>"

section \<open>The token cache (lines 42 to 100)\<close>

definition token_url :: pystr where
  "token_url = ascii ''https://auth.worksmobile.com/b/common/api/v1/oauth/token''"

definition token_request :: "config \<Rightarrow> pystr \<Rightarrow> http_request" where
  "token_request cfg assertion =
     PostForm token_url
       [(ascii ''Content-Type'', ascii ''application/x-www-form-urlencoded'')]
       [(ascii ''grant_type'', PStr (ascii ''urn:ietf:params:oauth:grant-type:jwt-bearer'')),
        (ascii ''assertion'', PStr assertion),
        (ascii ''client_id'', getenv_val (LINEWORKS_CLIENT_ID cfg)),
        (ascii ''client_secret'', getenv_val (LINEWORKS_CLIENT_SECRET cfg)),
        (ascii ''scope'', PStr (ascii ''bot directory.read''))]"

text \<open>Lines 57 to 62: the claims of the assertion.\<close>

definition token_payload :: "config \<Rightarrow> int \<Rightarrow> jwt_payload" where
  "token_payload cfg current_time =
     \<lparr>iss = getenv_val (LINEWORKS_CLIENT_ID cfg),
      sub = getenv_val (LINEWORKS_SERVICE_ACCOUNT cfg),
      iat = current_time, exp = current_time + 3600\<rparr>"

text \<open>
  Lines 91 to 96, run on the parsed body of a token response. The token is stored
  before \<open>expires_in\<close> is read, so an exception at line 94 leaves the new token in the
  cache. \<open>KeyError\<close> and \<open>TypeError\<close> are not \<open>RequestException\<close>s and propagate.
\<close>

definition store_token :: "int \<Rightarrow> pyval \<Rightarrow> state \<Rightarrow> (pyexn + pyval) \<times> state" where
  "store_token current_time token_data st =
     (case getitem token_data (ascii ''access_token'') of
        Inl e \<Rightarrow> (Inl e, st)
      | Inr tok \<Rightarrow>
          let st1 = st\<lparr>access_token_cache := (access_token_cache st)\<lparr>token := tok\<rparr>\<rparr> in
          (case getitem token_data (ascii ''expires_in'') of
             Inl e \<Rightarrow> (Inl e, st1)
           | Inr expires_in \<Rightarrow>
               (case int_add current_time expires_in of
                  Inl e \<Rightarrow> (Inl e, st1)
                | Inr s \<Rightarrow>
                    let st2 = st1\<lparr>access_token_cache :=
                                (access_token_cache st1)\<lparr>expires_at := s - 300\<rparr>\<rparr>
                    in (Inr (token (access_token_cache st2)), st2))))"

text \<open>
  \<open>get_lineworks_access_token\<close>. \<open>Inr PNone\<close> is \<open>return None\<close>. When \<open>requests.post\<close>
  itself raises, the handler at lines 97 to 100 reads \<open>response.text\<close> with \<open>response\<close>
  never assigned: \<open>UnboundLocalError\<close> leaves the function.
\<close>

definition get_lineworks_access_token ::
    "env \<Rightarrow> config \<Rightarrow> state \<Rightarrow> (pyexn + pyval) \<times> state" where
  "get_lineworks_access_token e cfg st =
     (let current_time = time_time e in
      if truthy (token (access_token_cache st)) \<and> expires_at (access_token_cache st) > current_time
      then (Inr (token (access_token_cache st)), st)
      else
        let payload = token_payload cfg current_time;
            st1 = emit (JwtEncode payload (LINEWORKS_PRIVATE_KEY cfg)) st
        in (case jwt_encode e payload (LINEWORKS_PRIVATE_KEY cfg) of
              None \<Rightarrow> (Inr PNone, st1)
            | Some assertion \<Rightarrow>
                let st2 = emit (Http (token_request cfg assertion)) st1 in
                (case requests e (token_request cfg assertion) of
                   RequestException \<Rightarrow> (Inl UnboundLocalError, st2)
                 | Response r \<Rightarrow>
                     if raise_for_status r then (Inr PNone, st2)
                     else (case json_body r of
                             None \<Rightarrow> (Inr PNone, st2)
                           | Some token_data \<Rightarrow> store_token current_time token_data st2))))"

section \<open>User lookup (lines 103 to 123)\<close>

definition unknown_user :: pystr where
  "unknown_user = [0x4E0D, 0x660E, 0x306A, 0x30E6, 0x30FC, 0x30B6, 0x30FC]"

definition unknown_user_token_error :: pystr where
  "unknown_user_token_error = unknown_user @ ascii '' (Token Error)''"

definition unknown_user_api_error :: pystr where
  "unknown_user_api_error = unknown_user @ ascii '' (API Error)''"

definition user_request :: "env \<Rightarrow> pyval \<Rightarrow> pyval \<Rightarrow> http_request" where
  "user_request e user_id access_token =
     Get (ascii ''https://www.worksapis.com/v1.0/users/'' @ fmt e user_id)
         [(ascii ''Authorization'', ascii ''Bearer '' @ fmt e access_token)]"

text \<open>Line 119: \<open>user_data.get('userName', {}).get('displayName', unknown_user)\<close>.
  \<open>AttributeError\<close> is not a \<open>RequestException\<close> and propagates.\<close>

definition display_name :: "pyval \<Rightarrow> pyexn + pyval" where
  "display_name user_data =
     (case dict_get user_data (ascii ''userName'') (PDict []) of
        Inl e \<Rightarrow> Inl e
      | Inr user_name \<Rightarrow> dict_get user_name (ascii ''displayName'') (PStr unknown_user))"

definition get_lineworks_user_name ::
    "env \<Rightarrow> config \<Rightarrow> pyval \<Rightarrow> state \<Rightarrow> (pyexn + pyval) \<times> state" where
  "get_lineworks_user_name e cfg user_id st =
     (case get_lineworks_access_token e cfg st of
        (Inl ex, st1) \<Rightarrow> (Inl ex, st1)
      | (Inr access_token, st1) \<Rightarrow>
          if \<not> truthy access_token then (Inr (PStr unknown_user_token_error), st1)
          else
            let st2 = emit (Http (user_request e user_id access_token)) st1 in
            (case requests e (user_request e user_id access_token) of
               RequestException \<Rightarrow> (Inl UnboundLocalError, st2)
             | Response r \<Rightarrow>
                 if raise_for_status r then (Inr (PStr unknown_user_api_error), st2)
                 else (case json_body r of
                         None \<Rightarrow> (Inr (PStr unknown_user_api_error), st2)
                       | Some user_data \<Rightarrow>
                           (case display_name user_data of
                              Inl ex \<Rightarrow> (Inl ex, st2)
                            | Inr name \<Rightarrow> (Inr name, st2)))))"

section \<open>Ticket creation (lines 126 to 151)\<close>

definition backlog_settings :: "config \<Rightarrow> pyval list" where
  "backlog_settings cfg =
     map getenv_val [BACKLOG_SPACE_ID cfg, BACKLOG_API_KEY cfg, BACKLOG_PROJECT_ID cfg,
                     BACKLOG_ISSUE_TYPE_ID cfg, BACKLOG_PRIORITY_ID cfg]"

definition issue_request :: "env \<Rightarrow> config \<Rightarrow> pystr \<Rightarrow> pyval \<Rightarrow> http_request" where
  "issue_request e cfg subject description =
     PostJson (ascii ''https://'' @ fmt e (getenv_val (BACKLOG_SPACE_ID cfg))
                 @ ascii ''.backlog.jp/api/v2/issues'')
       [(ascii ''apiKey'', getenv_val (BACKLOG_API_KEY cfg))]
       [(ascii ''projectId'', getenv_val (BACKLOG_PROJECT_ID cfg)),
        (ascii ''summary'', PStr subject),
        (ascii ''description'', description),
        (ascii ''issueTypeId'', getenv_val (BACKLOG_ISSUE_TYPE_ID cfg)),
        (ascii ''priorityId'', getenv_val (BACKLOG_PRIORITY_ID cfg))]"

text \<open>
  \<open>create_backlog_issue\<close>. Line 146 evaluates \<open>response.json().get('issueKey')\<close> inside
  the \<open>try\<close> and prints it: a body that is not JSON raises a \<open>RequestException\<close>
  (caught), a JSON body that is not an object raises \<open>AttributeError\<close> and an issue key
  that cannot be printed raises \<open>UnicodeEncodeError\<close> (neither is caught).
\<close>

definition create_backlog_issue ::
    "env \<Rightarrow> config \<Rightarrow> pystr \<Rightarrow> pyval \<Rightarrow> state \<Rightarrow> (pyexn + bool) \<times> state" where
  "create_backlog_issue e cfg subject description st0 =
     (let st = emit (CreateBacklogIssue subject description) st0 in
      if \<not> list_all truthy (backlog_settings cfg) then (Inr False, st)
      else
        let st1 = emit (Http (issue_request e cfg subject description)) st in
        (case requests e (issue_request e cfg subject description) of
           RequestException \<Rightarrow> (Inl UnboundLocalError, st1)
         | Response r \<Rightarrow>
             if raise_for_status r then (Inr False, st1)
             else (case json_body r of
                     None \<Rightarrow> (Inr False, st1)
                   | Some created \<Rightarrow>
                       (case dict_get created (ascii ''issueKey'') PNone of
                          Inl ex \<Rightarrow> (Inl ex, st1)
                        | Inr key \<Rightarrow>
                            (case print_str (ascii ''Backlog issue created successfully: ''
                                    @ fmt e key) of
                               Inl ex \<Rightarrow> (Inl ex, st1)
                             | Inr u \<Rightarrow> (Inr True, st1))))))"

section \<open>Signature verification (lines 159 to 171)\<close>

text \<open>\<open>base64.b64encode\<close>: the standard alphabet, three octets to four characters,
  padded with \<open>=\<close>.\<close>

definition b64_alphabet :: string where
  "b64_alphabet = ''ABCDEFGHIJKLMNOPQRSTUVWXYZabcdefghijklmnopqrstuvwxyz0123456789+/''"

definition b64_char :: "nat \<Rightarrow> 8 word" where
  "b64_char n = of_char (b64_alphabet ! n)"

definition b64_pad :: "8 word" where
  "b64_pad = of_char CHR ''=''"

fun b64encode :: "bytes \<Rightarrow> bytes" where
  "b64encode (a # b # c # rest) =
     (let n = unat a * 65536 + unat b * 256 + unat c
      in b64_char (n div 262144) # b64_char (n div 4096 mod 64) #
         b64_char (n div 64 mod 64) # b64_char (n mod 64) # b64encode rest)"
| "b64encode [a, b] =
     (let n = unat a * 1024 + unat b * 4
      in [b64_char (n div 4096), b64_char (n div 64 mod 64), b64_char (n mod 64), b64_pad])"
| "b64encode [a] =
     (let n = unat a * 16
      in [b64_char (n div 64), b64_char (n mod 64), b64_pad, b64_pad])"
| "b64encode [] = []"

text \<open>\<open>bs.decode('utf-8')\<close> on the output of \<open>b64encode\<close>, which is ASCII: one code point
  for each octet.\<close>

definition decode_ascii :: "bytes \<Rightarrow> pystr" where
  "decode_ascii bs = map unat bs"

text \<open>Lines 163 to 168 for an encoded key: the signature the handler expects.\<close>

definition expected_signature :: "env \<Rightarrow> bytes \<Rightarrow> bytes \<Rightarrow> pystr" where
  "expected_signature e key body = decode_ascii (b64encode (hmac_sha256 e key body))"

text \<open>\<open>hmac.compare_digest\<close> on two \<open>str\<close>: \<open>TypeError\<close> unless both are ASCII, else
  their equality.\<close>

definition is_ascii :: "pystr \<Rightarrow> bool" where
  "is_ascii s = list_all (\<lambda>c. c < 128) s"

definition compare_digest :: "pystr \<Rightarrow> pystr \<Rightarrow> pyexn + bool" where
  "compare_digest a b =
     (if is_ascii a \<and> is_ascii b then Inr (a = b) else Inl TypeError)"

section \<open>The webhook (lines 154 to 189)\<close>

text \<open>
  What the handler sees of a request: the \<open>X-Works-Signature\<close> header (\<open>None\<close> when
  absent; header values are Latin-1 decoded, one code point below 256 for each octet),
  \<open>request.data\<close> (the raw body; Flask leaves it empty when the request is form data),
  and what \<open>request.get_json()\<close> does on this request: it returns the parsed body or
  raises (Flask aborts with 400 on a body that is not JSON, with 415 on a content type
  that is not JSON).
\<close>

record request =
  x_works_signature :: "pystr option"
  data :: bytes
  get_json :: "pyexn + pyval"

text \<open>What the view function returns: a single value, or the pair \<open>("OK", 200)\<close>.\<close>

datatype view = ReturnValue pyval | ReturnTuple pystr nat

definition line_works_prefix :: pystr where
  "line_works_prefix = [0x3010] @ ascii ''LINE WORKS'' @ [0x3011]"

definition message_suffix :: pystr where
  "message_suffix = [0x3055, 0x3093, 0x304B, 0x3089, 0x306E, 0x30E1, 0x30C3, 0x30BB, 0x30FC, 0x30B8]"

text \<open>Line 186: the f-string of the ticket's summary.\<close>

definition subject_of :: "env \<Rightarrow> pyval \<Rightarrow> pystr" where
  "subject_of e user_name = line_works_prefix @ fmt e user_name @ message_suffix"

text \<open>Lines 179 to 189, once \<open>data.get('type')\<close> is known.\<close>

definition handle_message ::
    "env \<Rightarrow> config \<Rightarrow> pyval \<Rightarrow> state \<Rightarrow> (pyexn + view) \<times> state" where
  "handle_message e cfg dat st =
     (case dict_get dat (ascii ''content'') (PDict []) of
        Inl ex \<Rightarrow> (Inl ex, st)
      | Inr content \<Rightarrow>
          (case dict_get content (ascii ''type'') PNone of
             Inl ex \<Rightarrow> (Inl ex, st)
           | Inr content_type \<Rightarrow>
               if content_type \<noteq> PStr (ascii ''text'') then (Inr (ReturnTuple (ascii ''OK'') 200), st)
               else
                 (case getitem dat (ascii ''source'') of
                    Inl ex \<Rightarrow> (Inl ex, st)
                  | Inr source \<Rightarrow>
                      (case getitem source (ascii ''userId'') of
                         Inl ex \<Rightarrow> (Inl ex, st)
                       | Inr user_id \<Rightarrow>
                           (case dict_get content (ascii ''text'') PNone of
                              Inl ex \<Rightarrow> (Inl ex, st)
                            | Inr message_text \<Rightarrow>
                                (case get_lineworks_user_name e cfg user_id st of
                                   (Inl ex, st1) \<Rightarrow> (Inl ex, st1)
                                 | (Inr user_name, st1) \<Rightarrow>
                                     (case create_backlog_issue e cfg (subject_of e user_name)
                                             message_text st1 of
                                        (Inl ex, st2) \<Rightarrow> (Inl ex, st2)
                                      | (Inr created, st2) \<Rightarrow>
                                          (Inr (ReturnTuple (ascii ''OK'') 200), st2))))))))"

text \<open>Lines 173 to 189: the dispatch on the parsed body.\<close>

definition dispatch ::
    "env \<Rightarrow> config \<Rightarrow> request \<Rightarrow> state \<Rightarrow> (pyexn + view) \<times> state" where
  "dispatch e cfg req st =
     (case get_json req of
        Inl ex \<Rightarrow> (Inl ex, st)
      | Inr dat \<Rightarrow>
          (case dict_get dat (ascii ''type'') PNone of
             Inl ex \<Rightarrow> (Inl ex, st)
           | Inr ty \<Rightarrow>
               if ty = PStr (ascii ''url_verification'') then
                 (case dict_get dat (ascii ''challenge'') PNone of
                    Inl ex \<Rightarrow> (Inl ex, st)
                  | Inr challenge \<Rightarrow> (Inr (ReturnValue challenge), st))
               else if ty = PStr (ascii ''message'') then handle_message e cfg dat st
               else (Inr (ReturnTuple (ascii ''OK'') 200), st)))"

text \<open>
  Lines 159 to 171 of \<open>callback\<close>: \<open>Inr ()\<close> when the handler goes on to line 173,
  otherwise the exception that ends it. \<open>not signature\<close> holds for a missing header and
  for an empty one. \<open>os.getenv\<close> gives \<open>None\<close> for an unset \<open>LINEWORKS_BOT_SECRET\<close>, on
  which \<open>.encode\<close> raises \<open>AttributeError\<close>.
\<close>

definition verify_signature :: "env \<Rightarrow> config \<Rightarrow> request \<Rightarrow> pyexn + unit" where
  "verify_signature e cfg req =
     (case x_works_signature req of
        None \<Rightarrow> Inl (HTTPException 400)
      | Some signature \<Rightarrow>
          if \<not> truthy (PStr signature) then Inl (HTTPException 400)
          else
            (case LINEWORKS_BOT_SECRET cfg of
               None \<Rightarrow> Inl AttributeError
             | Some secret \<Rightarrow>
                 (case utf8_encode secret of
                    None \<Rightarrow> Inl UnicodeEncodeError
                  | Some key \<Rightarrow>
                      (case compare_digest signature (expected_signature e key (data req)) of
                         Inl ex \<Rightarrow> Inl ex
                       | Inr matches \<Rightarrow>
                           if \<not> matches then Inl (HTTPException 401) else Inr ()))))"

text \<open>\<open>callback\<close>: the verification, then the dispatch.\<close>

definition callback ::
    "env \<Rightarrow> config \<Rightarrow> request \<Rightarrow> state \<Rightarrow> (pyexn + view) \<times> state" where
  "callback e cfg req st =
     (case verify_signature e cfg req of
        Inl ex \<Rightarrow> (Inl ex, st)
      | Inr u \<Rightarrow> dispatch e cfg req st)"

text \<open>
  What Flask sends for the outcome of a view: the status of an \<open>abort\<close>, 500 for any other
  exception, the status of a \<open>(body, status)\<close> pair, 200 for a \<open>str\<close> (sent as the body),
  for a \<open>dict\<close> or a \<open>list\<close> (sent as JSON); any other return value, \<open>None\<close> included, is
  a \<open>TypeError\<close> inside Flask, hence 500. Flask encodes a \<open>str\<close> body as UTF-8: a \<open>str\<close>
  that cannot be encoded is an unhandled \<open>UnicodeEncodeError\<close>, hence 500 as well.
\<close>

datatype body = Text pystr | Json pyval | ErrorPage

fun flask_response :: "pyexn + view \<Rightarrow> nat \<times> body" where
  "flask_response (Inl (HTTPException n)) = (n, ErrorPage)"
| "flask_response (Inl ex) = (500, ErrorPage)"
| "flask_response (Inr (ReturnTuple s n)) =
     (case utf8_encode s of None \<Rightarrow> (500, ErrorPage) | Some bs \<Rightarrow> (n, Text s))"
| "flask_response (Inr (ReturnValue (PStr s))) =
     (case utf8_encode s of None \<Rightarrow> (500, ErrorPage) | Some bs \<Rightarrow> (200, Text s))"
| "flask_response (Inr (ReturnValue (PDict kvs))) = (200, Json (PDict kvs))"
| "flask_response (Inr (ReturnValue (PList xs))) = (200, Json (PList xs))"
| "flask_response (Inr (ReturnValue v)) = (500, ErrorPage)"

text \<open>The requests a run sent over the network, in order.\<close>

fun http_requests :: "event list \<Rightarrow> http_request list" where
  "http_requests [] = []"
| "http_requests (Http r # evs) = r # http_requests evs"
| "http_requests (ev # evs) = http_requests evs"

section \<open>Notions of the specification\<close>

text \<open>The calls of \<open>create_backlog_issue\<close> a run made, with their arguments, in order.\<close>

fun ticket_calls :: "event list \<Rightarrow> (pystr \<times> pyval) list" where
  "ticket_calls [] = []"
| "ticket_calls (CreateBacklogIssue subject description # evs) =
     (subject, description) # ticket_calls evs"
| "ticket_calls (ev # evs) = ticket_calls evs"

text \<open>A configuration value that is unset (\<open>os.getenv\<close> gave \<open>None\<close>) or the empty string.\<close>

definition unset_or_empty :: "pystr option \<Rightarrow> bool" where
  "unset_or_empty v = (v = None \<or> v = Some [])"

text \<open>
  A validly signed request: the bot secret is configured and encodes to a key, and the
  header carries the base64 text of the HMAC-SHA256 digest of \<open>request.data\<close> under
  that key. A SHA-256 digest has 32 octets.
\<close>

definition validly_signed :: "env \<Rightarrow> config \<Rightarrow> request \<Rightarrow> bool" where
  "validly_signed e cfg req =
     (case LINEWORKS_BOT_SECRET cfg of
        None \<Rightarrow> False
      | Some secret \<Rightarrow>
          (case utf8_encode secret of
             None \<Rightarrow> False
           | Some key \<Rightarrow>
               length (hmac_sha256 e key (data req)) = 32 \<and>
               x_works_signature req = Some (expected_signature e key (data req))))"

text \<open>A single-bit mutation: bit \<open>k\<close> of the element at position \<open>i\<close> is flipped.\<close>

definition flip_bit_at :: "nat \<Rightarrow> nat \<Rightarrow> 'a::semiring_bit_operations list \<Rightarrow> 'a list" where
  "flip_bit_at i k xs = xs[i := flip_bit k (xs ! i)]"

section \<open>Example inputs\<close>

text \<open>
  Concrete configurations, environments and states on which the theorems below are
  instantiated. \<open>example_net\<close> answers by the kind of request: the token endpoint is the
  only form post, the user lookup the only get, the tracker the only JSON post.
  \<open>example_digest\<close> is a stand-in of the right length for the digest function.
\<close>

definition example_config :: config where
  "example_config =
     \<lparr>BACKLOG_SPACE_ID = Some (ascii ''myspace''), BACKLOG_API_KEY = Some (ascii ''apikey''),
      BACKLOG_PROJECT_ID = Some (ascii ''1''), BACKLOG_ISSUE_TYPE_ID = Some (ascii ''2''),
      BACKLOG_PRIORITY_ID = Some (ascii ''3''), LINEWORKS_BOT_SECRET = Some (ascii ''botsecret''),
      LINEWORKS_CLIENT_ID = Some (ascii ''client''), LINEWORKS_CLIENT_SECRET = Some (ascii ''clientsecret''),
      LINEWORKS_SERVICE_ACCOUNT = Some (ascii ''bot@example''), LINEWORKS_PRIVATE_KEY = ascii ''PEM''\<rparr>"

definition example_net :: "http_outcome \<Rightarrow> http_outcome \<Rightarrow> http_outcome \<Rightarrow> http_request \<Rightarrow> http_outcome" where
  "example_net token_outcome user_outcome issue_outcome req =
     (case req of
        PostForm url headers form \<Rightarrow> token_outcome
      | Get url headers \<Rightarrow> user_outcome
      | PostJson url params payload \<Rightarrow> issue_outcome)"

definition example_digest :: "bytes \<Rightarrow> bytes \<Rightarrow> bytes" where
  "example_digest key msg =
     take 32 (msg @ key @
       [0, 0, 0, 0, 0, 0, 0, 0, 0, 0, 0, 0, 0, 0, 0, 0,
        0, 0, 0, 0, 0, 0, 0, 0, 0, 0, 0, 0, 0, 0, 0, 0])"

definition example_env :: "int \<Rightarrow> pystr option \<Rightarrow> (http_request \<Rightarrow> http_outcome) \<Rightarrow> env" where
  "example_env t assertion net =
     \<lparr>time_time = t, jwt_encode = (\<lambda>payload key. assertion), requests = net,
      hmac_sha256 = example_digest, str_of = (\<lambda>v. ascii ''<repr>'')\<rparr>"

definition ok_response :: "pyval \<Rightarrow> http_outcome" where
  "ok_response v = Response \<lparr>status_code = 200, json_body = Some v\<rparr>"

definition token_response :: "pyval \<Rightarrow> int \<Rightarrow> http_outcome" where
  "token_response tok n =
     ok_response (PDict [(ascii ''access_token'', tok), (ascii ''expires_in'', PInt n)])"

definition user_response :: "pystr \<Rightarrow> http_outcome" where
  "user_response name =
     ok_response (PDict [(ascii ''userName'', PDict [(ascii ''displayName'', PStr name)])])"

definition issue_response :: http_outcome where
  "issue_response = ok_response (PDict [(ascii ''issueKey'', PStr (ascii ''PRJ-1''))])"

definition empty_state :: state where
  "empty_state = \<lparr>access_token_cache = initial_cache, trace = []\<rparr>"

definition stale_empty_token_state :: state where
  "stale_empty_token_state =
     \<lparr>access_token_cache = \<lparr>token = PStr [], expires_at = 2000\<rparr>, trace = []\<rparr>"

definition cached_state :: state where
  "cached_state =
     \<lparr>access_token_cache = \<lparr>token = PStr (ascii ''tok-1''), expires_at = 4300\<rparr>, trace = []\<rparr>"

definition token_only_net :: "http_request \<Rightarrow> http_outcome" where
  "token_only_net =
     example_net (token_response (PStr (ascii ''tok-1'')) 3600) RequestException RequestException"

definition no_project_config :: config where
  "no_project_config = example_config\<lparr>BACKLOG_PROJECT_ID := Some []\<rparr>"

text \<open>A \<open>bytes\<close> literal, the key of \<open>example_config\<close>, and a request signed with it.\<close>

definition raw :: "string \<Rightarrow> bytes" where
  "raw s = map of_char s"

definition example_key :: bytes where
  "example_key = raw ''botsecret''"

definition signed_request :: "env \<Rightarrow> bytes \<Rightarrow> pyexn + pyval \<Rightarrow> request" where
  "signed_request e body parsed =
     \<lparr>x_works_signature = Some (expected_signature e example_key body),
      data = body, get_json = parsed\<rparr>"

definition offline_env :: env where
  "offline_env = example_env 1000 None (\<lambda>req. RequestException)"



text \<open>The message of claim C9 and the display name U+7530 U+4E2D.\<close>

definition message_event :: pyval where
  "message_event =
     PDict [(ascii ''type'', PStr (ascii ''message'')),
            (ascii ''source'', PDict [(ascii ''userId'', PStr (ascii ''u1''))]),
            (ascii ''content'', PDict [(ascii ''type'', PStr (ascii ''text'')),
                                       (ascii ''text'', PStr (ascii ''hello''))])]"

definition message_body :: bytes where
  "message_body =
     raw ''{\"type\":\"message\",\"source\":{\"userId\":\"u1\"},\"content\":{\"type\":\"text\",\"text\":\"hello\"}}''"

definition tanaka :: pystr where
  "tanaka = [0x7530, 0x4E2D]"

definition online_env :: env where
  "online_env =
     example_env 1000 (Some (ascii ''jwt''))
       (example_net (token_response (PStr (ascii ''tok-1'')) 3600) (user_response tanaka)
          issue_response)"

text \<open>Requests for the signature check, all with the body \<open>{}\<close>: no header, an empty
  header, a wrong ASCII signature, and the right signature with bit 7, and with bit 0,
  of its first character flipped.\<close>

definition unsigned_request :: request where
  "unsigned_request = \<lparr>x_works_signature = None, data = raw ''{}'', get_json = Inr (PDict [])\<rparr>"

definition empty_signature_request :: request where
  "empty_signature_request = \<lparr>x_works_signature = Some [], data = raw ''{}'', get_json = Inr (PDict [])\<rparr>"

definition wrong_signature_request :: request where
  "wrong_signature_request =
     \<lparr>x_works_signature = Some (ascii ''AAAA''), data = raw ''{}'', get_json = Inr (PDict [])\<rparr>"

definition example_signature_text :: pystr where
  "example_signature_text = ascii ''e31ib3RzZWNyZXQAAAAAAAAAAAAAAAAAAAAAAAAAAAA=''"

definition high_bit_request :: request where
  "high_bit_request =
     \<lparr>x_works_signature = Some (flip_bit_at 0 7 example_signature_text),
      data = raw ''{}'', get_json = Inr (PDict [])\<rparr>"

definition low_bit_request :: request where
  "low_bit_request =
     \<lparr>x_works_signature = Some (flip_bit_at 0 0 example_signature_text),
      data = raw ''{}'', get_json = Inr (PDict [])\<rparr>"



text \<open>The message of claim C9 as a signed request, its summary, and environments in
  which one of the three services cannot be reached.\<close>

definition message_request :: "env \<Rightarrow> request" where
  "message_request e = signed_request e message_body (Inr message_event)"

definition ticket_down_env :: env where
  "ticket_down_env =
     example_env 1000 (Some (ascii ''jwt''))
       (example_net (token_response (PStr (ascii ''tok-1'')) 3600) (user_response tanaka)
          RequestException)"

definition lookup_down_env :: env where
  "lookup_down_env =
     example_env 1000 (Some (ascii ''jwt''))
       (example_net (token_response (PStr (ascii ''tok-1'')) 3600) RequestException
          issue_response)"

definition token_down_env :: env where
  "token_down_env =
     example_env 1000 (Some (ascii ''jwt''))
       (example_net RequestException (user_response tanaka) issue_response)"

definition c9_summary :: pystr where
  "c9_summary = [0x3010] @ ascii ''LINE WORKS'' @
               [0x3011, 0x7530, 0x4E2D, 0x3055, 0x3093, 0x304B, 0x3089, 0x306E, 0x30E1, 0x30C3,
                0x30BB, 0x30FC, 0x30B8]"

text \<open>The state after a first token exchange at time 1000; a state whose token has
  expired; a token endpoint that answers without \<open>expires_in\<close>.\<close>

definition after_token :: state where
  "after_token =
     \<lparr>access_token_cache = \<lparr>token = PStr (ascii ''tok-1''), expires_at = 4300\<rparr>,
      trace = [JwtEncode (token_payload example_config 1000) (ascii ''PEM''),
               Http (token_request example_config (ascii ''jwt''))]\<rparr>"

definition expired_state :: state where
  "expired_state =
     \<lparr>access_token_cache = \<lparr>token = PStr (ascii ''tok-0''), expires_at = 500\<rparr>, trace = []\<rparr>"

definition truncated_env :: env where
  "truncated_env =
     example_env 1000 (Some (ascii ''jwt''))
       (example_net (ok_response (PDict [(ascii ''access_token'', PStr (ascii ''tok-2''))]))
          (user_response tanaka) issue_response)"

text \<open>Signed requests: a text message without \<open>source\<close>, a \<open>url_verification\<close> without
  \<open>challenge\<close>, and a body that is not JSON.\<close>

definition no_source_request :: request where
  "no_source_request =
     signed_request offline_env
       (raw ''{\"type\":\"message\",\"content\":{\"type\":\"text\",\"text\":\"hi\"}}'')
       (Inr (PDict [(ascii ''type'', PStr (ascii ''message'')),
                    (ascii ''content'', PDict [(ascii ''type'', PStr (ascii ''text'')),
                                               (ascii ''text'', PStr (ascii ''hi''))])]))"

definition no_challenge_request :: request where
  "no_challenge_request =
     signed_request offline_env (raw ''{\"type\":\"url_verification\"}'')
       (Inr (PDict [(ascii ''type'', PStr (ascii ''url_verification''))]))"

definition not_json_request :: request where
  "not_json_request = signed_request offline_env (raw ''not json'') (Inl (HTTPException 400))"

section \<open>Auxiliary facts\<close>

lemmas example_defs = example_config_def example_net_def example_env_def ok_response_def
  token_response_def user_response_def issue_response_def empty_state_def initial_cache_def
  stale_empty_token_state_def cached_state_def token_only_net_def

lemma http_requests_append:
  "http_requests (xs @ ys) = http_requests xs @ http_requests ys"
  by (induction xs rule: http_requests.induct) simp_all

lemma trace_emit: "trace (emit ev st) = trace st @ [ev]"
  by (simp add: emit_def)

lemma cache_emit: "access_token_cache (emit ev st) = access_token_cache st"
  by (simp add: emit_def)

lemma token_cache_hit:
  assumes "truthy (token (access_token_cache st))"
    and "time_time e < expires_at (access_token_cache st)"
  shows "get_lineworks_access_token e cfg st = (Inr (token (access_token_cache st)), st)"
  using assms by (simp add: get_lineworks_access_token_def)

lemma token_cache_miss:
  assumes "\<not> (truthy (token (access_token_cache st)) \<and> time_time e < expires_at (access_token_cache st))"
  shows "get_lineworks_access_token e cfg st =
     (let st1 = emit (JwtEncode (token_payload cfg (time_time e)) (LINEWORKS_PRIVATE_KEY cfg)) st in
      case jwt_encode e (token_payload cfg (time_time e)) (LINEWORKS_PRIVATE_KEY cfg) of
        None \<Rightarrow> (Inr PNone, st1)
      | Some assertion \<Rightarrow>
          let st2 = emit (Http (token_request cfg assertion)) st1 in
          (case requests e (token_request cfg assertion) of
             RequestException \<Rightarrow> (Inl UnboundLocalError, st2)
           | Response r \<Rightarrow>
               if raise_for_status r then (Inr PNone, st2)
               else (case json_body r of
                       None \<Rightarrow> (Inr PNone, st2)
                     | Some token_data \<Rightarrow> store_token (time_time e) token_data st2)))"
  using assms by (auto simp: get_lineworks_access_token_def Let_def split: option.splits http_outcome.splits)

lemma store_token_ok:
  assumes "getitem token_data (ascii ''access_token'') = Inr tok"
    and "getitem token_data (ascii ''expires_in'') = Inr (PInt n)"
  shows "store_token t token_data st =
     (Inr tok, st\<lparr>access_token_cache := \<lparr>token = tok, expires_at = t + n - 300\<rparr>\<rparr>)"
  using assms by (simp add: store_token_def Let_def)

lemma store_token_trace: "trace (snd (store_token t token_data st)) = trace st"
  by (simp add: store_token_def Let_def split: sum.splits)

lemma token_cache_miss_requests:
  assumes "\<not> (truthy (token (access_token_cache st)) \<and> time_time e < expires_at (access_token_cache st))"
    and "jwt_encode e (token_payload cfg (time_time e)) (LINEWORKS_PRIVATE_KEY cfg) = Some a"
  shows "trace (snd (get_lineworks_access_token e cfg st)) =
         trace st @ [JwtEncode (token_payload cfg (time_time e)) (LINEWORKS_PRIVATE_KEY cfg),
                     Http (token_request cfg a)]"
  using assms
  by (simp add: token_cache_miss Let_def trace_emit store_token_trace
        split: http_outcome.splits option.splits)

text \<open>The characters of the base64 alphabet are ASCII.\<close>

lemma b64_chars: "map b64_char [0..<64] = map of_char b64_alphabet"
  by (simp add: b64_char_def b64_alphabet_def upt_rec)

lemma b64_char_in_alphabet:
  assumes "n < 64"
  shows "b64_char n \<in> of_char ` set b64_alphabet"
proof -
  from assms have "b64_char n \<in> set (map b64_char [0..<64])" by simp
  then show ?thesis unfolding b64_chars by simp
qed

lemma b64_char_ascii:
  assumes "n < 64"
  shows "unat (b64_char n) < 128"
proof -
  have "\<forall>c \<in> set b64_alphabet. unat (of_char c :: 8 word) < 128"
    by (simp add: b64_alphabet_def)
  with b64_char_in_alphabet [OF assms] show ?thesis by auto
qed

text \<open>The output of \<open>b64encode\<close> is ASCII and empty only for the empty input.\<close>

lemma byte_bound: "unat (a :: 8 word) < 256"
  using unsigned_less [of a, where ?'a = nat] by simp

lemma b64encode_ascii: "list_all (\<lambda>w. unat w < 128) (b64encode bs)"
proof (induction bs rule: b64encode.induct)
  case (1 a b c rest)
  have "unat a * 65536 + unat b * 256 + unat c < 16777216"
    using byte_bound [of a] byte_bound [of b] byte_bound [of c] by arith
  then have "(unat a * 65536 + unat b * 256 + unat c) div 262144 < 64" by arith
  with 1 show ?case by (simp add: Let_def b64_char_ascii)
next
  case (2 a b)
  have "unat a * 1024 + unat b * 4 < 262144"
    using byte_bound [of a] byte_bound [of b] by arith
  then have "(unat a * 1024 + unat b * 4) div 4096 < 64" by arith
  then show ?case by (simp add: Let_def b64_char_ascii b64_pad_def)
next
  case (3 a)
  have "unat a * 16 div 64 < 64" using byte_bound [of a] by arith
  then show ?case by (simp add: Let_def b64_char_ascii b64_pad_def)
next
  case 4
  show ?case by simp
qed

lemma b64encode_Nil: "b64encode bs = [] \<longleftrightarrow> bs = []"
  by (induction bs rule: b64encode.induct) (simp_all add: Let_def)

lemma expected_signature_ascii: "is_ascii (expected_signature e key body)"
  using b64encode_ascii [of "hmac_sha256 e key body"]
  by (simp add: is_ascii_def expected_signature_def decode_ascii_def list_all_iff)

lemma expected_signature_nonempty:
  "hmac_sha256 e key body \<noteq> [] \<Longrightarrow> expected_signature e key body \<noteq> []"
  by (simp add: expected_signature_def decode_ascii_def b64encode_Nil)

text \<open>Signature verification.\<close>

lemma compare_digest_ascii:
  "is_ascii a \<Longrightarrow> is_ascii b \<Longrightarrow> compare_digest a b = Inr (a = b)"
  by (simp add: compare_digest_def)

lemma verify_signature_configured:
  assumes "LINEWORKS_BOT_SECRET cfg = Some secret" "utf8_encode secret = Some key"
    and "x_works_signature req = Some signature" "signature \<noteq> []"
  shows "verify_signature e cfg req =
     (if is_ascii signature
      then if signature = expected_signature e key (data req) then Inr ()
           else Inl (HTTPException 401)
      else Inl TypeError)"
  using assms
  by (simp add: verify_signature_def compare_digest_def expected_signature_ascii)

lemma validly_signed_accepted:
  assumes "validly_signed e cfg req"
  shows "verify_signature e cfg req = Inr ()"
proof -
  from assms obtain secret key where
    s: "LINEWORKS_BOT_SECRET cfg = Some secret" "utf8_encode secret = Some key"
    and d: "length (hmac_sha256 e key (data req)) = 32"
    and h: "x_works_signature req = Some (expected_signature e key (data req))"
    by (auto simp: validly_signed_def split: option.splits)
  from d have "hmac_sha256 e key (data req) \<noteq> []" by auto
  then have "expected_signature e key (data req) \<noteq> []"
    by (rule expected_signature_nonempty)
  from verify_signature_configured [OF s h this] show ?thesis
    by (simp add: expected_signature_ascii)
qed

lemma validly_signed_callback:
  "validly_signed e cfg req \<Longrightarrow> callback e cfg req st = dispatch e cfg req st"
  by (simp add: callback_def validly_signed_accepted)

lemma flip_low_bit_ascii:
  fixes c :: nat
  assumes "c < 128" "k < 7"
  shows "flip_bit k c < 128"
proof -
  from assms(1) have "take_bit 7 c = c" by (simp add: take_bit_nat_eq_self_iff)
  with assms(2) have "take_bit 7 (flip_bit k c) = flip_bit k c"
    by (simp add: take_bit_flip_bit_eq)
  then show ?thesis by (simp add: take_bit_nat_eq_self_iff)
qed

lemma flip_high_bit_not_ascii:
  fixes c :: nat
  assumes "c < 128"
  shows "\<not> flip_bit 7 c < 128"
proof
  assume "flip_bit 7 c < 128"
  then have "take_bit 7 (flip_bit 7 c) = flip_bit 7 c" by (simp add: take_bit_nat_eq_self_iff)
  then have "take_bit 7 c = flip_bit 7 c" by (simp add: take_bit_flip_bit_eq)
  moreover from assms have "take_bit 7 c = c" by (simp add: take_bit_nat_eq_self_iff)
  ultimately have "bit c 7 = bit (flip_bit 7 c) 7" by simp
  then show False by (simp add: bit_flip_bit_iff)
qed

lemma flip_bit_changes: "flip_bit k (c::'a::semiring_bit_operations) \<noteq> c" if "possible_bit TYPE('a) k"
proof
  assume "flip_bit k c = c"
  then have "bit (flip_bit k c) k = bit c k" by simp
  with that show False by (simp add: bit_flip_bit_iff)
qed

lemma flip_bit_at_changes:
  fixes xs :: "'a::semiring_bit_operations list"
  assumes "i < length xs" "possible_bit TYPE('a) k"
  shows "flip_bit_at i k xs \<noteq> xs"
proof
  assume "flip_bit_at i k xs = xs"
  then have "flip_bit_at i k xs ! i = xs ! i" by simp
  with assms(1) have "flip_bit k (xs ! i) = xs ! i" by (simp add: flip_bit_at_def)
  with flip_bit_changes [OF assms(2)] show False by blast
qed

lemma flip_bit_at_nonempty: "xs \<noteq> [] \<Longrightarrow> flip_bit_at i k xs \<noteq> []"
  by (simp add: flip_bit_at_def)

lemma flip_bit_at_low_ascii:
  assumes "is_ascii s" "k < 7"
  shows "is_ascii (flip_bit_at i k s)"
proof -
  have "c < 128" if "c \<in> set (s[i := flip_bit k (s ! i)])" for c
  proof (cases "i < length s")
    case True
    from that have "c = flip_bit k (s ! i) \<or> c \<in> set s"
      by (auto dest: set_update_subset_insert [THEN subsetD])
    moreover from True assms(1) have "s ! i < 128" by (simp add: is_ascii_def list_all_length)
    ultimately show ?thesis using assms by (auto simp: flip_low_bit_ascii is_ascii_def list_all_iff)
  next
    case False
    then have "s[i := flip_bit k (s ! i)] = s" by (simp add: list_update_beyond)
    with that assms(1) show ?thesis by (simp add: is_ascii_def list_all_iff)
  qed
  then show ?thesis by (simp add: is_ascii_def flip_bit_at_def list_all_iff)
qed

lemma flip_bit_at_high_not_ascii:
  assumes "is_ascii s" "i < length s"
  shows "\<not> is_ascii (flip_bit_at i 7 s)"
proof
  assume "is_ascii (flip_bit_at i 7 s)"
  then have "\<forall>n < length s. flip_bit_at i 7 s ! n < 128"
    by (simp add: is_ascii_def list_all_length flip_bit_at_def)
  with assms(2) have "flip_bit_at i 7 s ! i < 128" by blast
  with assms(2) have "flip_bit 7 (s ! i) < 128" by (simp add: flip_bit_at_def)
  moreover from assms have "s ! i < 128" by (simp add: is_ascii_def list_all_length)
  ultimately show False using flip_high_bit_not_ascii by blast
qed

text \<open>The example inputs.\<close>

lemma example_key_encoded: "utf8_encode (ascii ''botsecret'') = Some example_key"
  by (simp add: ascii_def raw_def utf8_char_def example_key_def)

lemma example_digest_length: "length (example_digest key msg) = 32"
  by (simp add: example_digest_def)

lemma signed_request_valid:
  "hmac_sha256 e = example_digest \<Longrightarrow> validly_signed e example_config (signed_request e body parsed)"
  by (simp add: validly_signed_def signed_request_def example_config_def example_key_encoded
      example_digest_length)

lemma example_signature:
  "hmac_sha256 e = example_digest \<Longrightarrow>
   expected_signature e example_key (raw ''{}'') = ascii ''e31ib3RzZWNyZXQAAAAAAAAAAAAAAAAAAAAAAAAAAAA=''"
  by (simp add: expected_signature_def example_digest_def example_key_def raw_def ascii_def
      decode_ascii_def b64_char_def b64_alphabet_def b64_pad_def)

lemma offline_digest: "hmac_sha256 offline_env = example_digest"
  by (simp add: offline_env_def example_env_def)

lemma offline_signature:
  "expected_signature offline_env example_key (raw ''{}'') = example_signature_text"
  by (simp add: example_signature [OF offline_digest] example_signature_text_def)

lemma flipped_signatures:
  "flip_bit_at 0 0 example_signature_text = ascii ''d31ib3RzZWNyZXQAAAAAAAAAAAAAAAAAAAAAAAAAAAA=''"
  "flip_bit_at 0 7 example_signature_text = 229 # ascii ''31ib3RzZWNyZXQAAAAAAAAAAAAAAAAAAAAAAAAAAAA=''"
  by (simp_all add: example_signature_text_def flip_bit_at_def ascii_def flip_bit_eq_xor)

text \<open>Calls of \<open>create_backlog_issue\<close> in the trace.\<close>

lemma ticket_calls_append:
  "ticket_calls (xs @ ys) = ticket_calls xs @ ticket_calls ys"
  by (induction xs rule: ticket_calls.induct) simp_all

lemma token_ticket_calls:
  "ticket_calls (trace (snd (get_lineworks_access_token e cfg st))) = ticket_calls (trace st)"
  by (simp add: get_lineworks_access_token_def Let_def trace_emit store_token_trace
      ticket_calls_append split: option.splits http_outcome.splits)

lemma user_name_ticket_calls:
  "ticket_calls (trace (snd (get_lineworks_user_name e cfg user_id st))) = ticket_calls (trace st)"
proof -
  obtain r st1 where t: "get_lineworks_access_token e cfg st = (r, st1)"
    by (cases "get_lineworks_access_token e cfg st")
  with token_ticket_calls [of e cfg st]
  have "ticket_calls (trace st1) = ticket_calls (trace st)" by simp
  with t show ?thesis
    by (simp add: get_lineworks_user_name_def Let_def trace_emit ticket_calls_append
        split: sum.splits option.splits http_outcome.splits)
qed

lemma create_ticket_calls:
  "ticket_calls (trace (snd (create_backlog_issue e cfg subject description st)))
     = ticket_calls (trace st) @ [(subject, description)]"
  by (simp add: create_backlog_issue_def Let_def trace_emit ticket_calls_append
      split: sum.splits option.splits http_outcome.splits)

lemma create_http_requests:
  "list_all truthy (backlog_settings cfg) \<Longrightarrow>
   http_requests (trace (snd (create_backlog_issue e cfg subject description st)))
     = http_requests (trace st) @ [issue_request e cfg subject description]"
  by (simp add: create_backlog_issue_def Let_def trace_emit http_requests_append
      split: sum.splits option.splits http_outcome.splits)

lemma handle_message_text:
  assumes "dict_get dat (ascii ''content'') (PDict []) = Inr content"
    and "dict_get content (ascii ''type'') PNone = Inr (PStr (ascii ''text''))"
    and "getitem dat (ascii ''source'') = Inr source"
    and "getitem source (ascii ''userId'') = Inr user_id"
    and "dict_get content (ascii ''text'') PNone = Inr message_text"
    and "get_lineworks_user_name e cfg user_id st = (Inr user_name, st1)"
  shows "handle_message e cfg dat st =
     (case create_backlog_issue e cfg (subject_of e user_name) message_text st1 of
        (Inl ex, st2) \<Rightarrow> (Inl ex, st2)
      | (Inr created, st2) \<Rightarrow> (Inr (ReturnTuple (ascii ''OK'') 200), st2))"
  using assms by (simp add: handle_message_def)

lemma snd_after_create:
  "snd (case create_backlog_issue e cfg subject description st1 of
        (Inl ex, st2) \<Rightarrow> (Inl ex, st2)
      | (Inr created, st2) \<Rightarrow> (Inr (ReturnTuple (ascii ''OK'') 200), st2))
   = snd (create_backlog_issue e cfg subject description st1)"
  by (simp split: prod.splits sum.splits)

text \<open>The example environments, step by step.\<close>

lemma example_env_sel:
  "time_time (example_env t a net) = t"
  "jwt_encode (example_env t a net) p k = a"
  "requests (example_env t a net) = net"
  "hmac_sha256 (example_env t a net) = example_digest"
  by (simp_all add: example_env_def)

lemma example_net_sel:
  "example_net x y z (token_request cfg a) = x"
  "example_net x y z (user_request e u t) = y"
  "example_net x y z (issue_request e cfg s d) = z"
  by (simp_all add: example_net_def token_request_def user_request_def issue_request_def)

lemma token_response_items:
  "getitem (PDict [(ascii ''access_token'', tok), (ascii ''expires_in'', PInt n)]) (ascii ''access_token'') = Inr tok"
  "getitem (PDict [(ascii ''access_token'', tok), (ascii ''expires_in'', PInt n)]) (ascii ''expires_in'') = Inr (PInt n)"
  by (simp_all add: ascii_def)

lemma online_token:
  assumes "requests e (token_request example_config (ascii ''jwt'')) = token_response (PStr (ascii ''tok-1'')) 3600"
    and "time_time e = 1000"
    and "jwt_encode e (token_payload example_config 1000) (ascii ''PEM'') = Some (ascii ''jwt'')"
  shows "get_lineworks_access_token e example_config empty_state =
    (Inr (PStr (ascii ''tok-1'')),
     \<lparr>access_token_cache = \<lparr>token = PStr (ascii ''tok-1''), expires_at = 4300\<rparr>,
      trace = [JwtEncode (token_payload example_config 1000) (ascii ''PEM''),
               Http (token_request example_config (ascii ''jwt''))]\<rparr>)"
proof -
  have miss: "\<not> (truthy (token (access_token_cache empty_state))
      \<and> time_time e < expires_at (access_token_cache empty_state))"
    by (simp add: empty_state_def initial_cache_def)
  have key: "LINEWORKS_PRIVATE_KEY example_config = ascii ''PEM''"
    by (simp add: example_config_def)
  show ?thesis
    unfolding token_cache_miss [OF miss]
    using assms
    by (simp add: key token_response_def ok_response_def raise_for_status_def
        store_token_ok [OF token_response_items] emit_def empty_state_def initial_cache_def)
qed

lemma tok_truthy: "truthy (PStr (ascii ''tok-1''))"
  by (simp add: ascii_def)

lemma lookup_down:
  assumes "get_lineworks_access_token e cfg st = (Inr tok, st1)" "truthy tok"
    and "requests e (user_request e user_id tok) = RequestException"
  shows "get_lineworks_user_name e cfg user_id st =
     (Inl UnboundLocalError, emit (Http (user_request e user_id tok)) st1)"
  using assms by (simp add: get_lineworks_user_name_def)

lemma lookup_named:
  assumes "get_lineworks_access_token e cfg st = (Inr tok, st1)" "truthy tok"
    and "requests e (user_request e user_id tok) = user_response name"
  shows "get_lineworks_user_name e cfg user_id st =
     (Inr (PStr name), emit (Http (user_request e user_id tok)) st1)"
  using assms
  by (simp add: get_lineworks_user_name_def user_response_def ok_response_def
      raise_for_status_def display_name_def)

lemma create_down:
  assumes "list_all truthy (backlog_settings cfg)"
    and "requests e (issue_request e cfg subject description) = RequestException"
  shows "create_backlog_issue e cfg subject description st =
     (Inl UnboundLocalError,
      emit (Http (issue_request e cfg subject description))
        (emit (CreateBacklogIssue subject description) st))"
  using assms by (simp add: create_backlog_issue_def Let_def)

lemma example_settings: "list_all truthy (backlog_settings example_config)"
  by (simp add: backlog_settings_def example_config_def ascii_def)

lemma online_env_token:
  "get_lineworks_access_token online_env example_config empty_state
     = (Inr (PStr (ascii ''tok-1'')), after_token)"
  unfolding after_token_def
  by (rule online_token) (simp_all add: online_env_def example_env_sel example_net_sel)

lemma ticket_down_env_token:
  "get_lineworks_access_token ticket_down_env example_config empty_state
     = (Inr (PStr (ascii ''tok-1'')), after_token)"
  unfolding after_token_def
  by (rule online_token) (simp_all add: ticket_down_env_def example_env_sel example_net_sel)

lemma lookup_down_env_token:
  "get_lineworks_access_token lookup_down_env example_config empty_state
     = (Inr (PStr (ascii ''tok-1'')), after_token)"
  unfolding after_token_def
  by (rule online_token) (simp_all add: lookup_down_env_def example_env_sel example_net_sel)

lemma online_env_lookup:
  "get_lineworks_user_name online_env example_config (PStr (ascii ''u1'')) empty_state
     = (Inr (PStr tanaka),
        emit (Http (user_request online_env (PStr (ascii ''u1'')) (PStr (ascii ''tok-1''))))
          after_token)"
  by (rule lookup_named [OF online_env_token tok_truthy])
     (simp add: online_env_def example_env_sel example_net_sel)

lemma ticket_down_env_lookup:
  "get_lineworks_user_name ticket_down_env example_config (PStr (ascii ''u1'')) empty_state
     = (Inr (PStr tanaka),
        emit (Http (user_request ticket_down_env (PStr (ascii ''u1'')) (PStr (ascii ''tok-1''))))
          after_token)"
  by (rule lookup_named [OF ticket_down_env_token tok_truthy])
     (simp add: ticket_down_env_def example_env_sel example_net_sel)

lemma lookup_down_env_lookup:
  "get_lineworks_user_name lookup_down_env example_config (PStr (ascii ''u1'')) empty_state
     = (Inl UnboundLocalError,
        emit (Http (user_request lookup_down_env (PStr (ascii ''u1'')) (PStr (ascii ''tok-1''))))
          after_token)"
  by (rule lookup_down [OF lookup_down_env_token tok_truthy])
     (simp add: lookup_down_env_def example_env_sel example_net_sel)

lemma message_request_valid:
  "hmac_sha256 e = example_digest \<Longrightarrow> validly_signed e example_config (message_request e)"
  unfolding message_request_def by (rule signed_request_valid)

lemma message_event_keys:
  "dict_get message_event (ascii ''type'') PNone = Inr (PStr (ascii ''message''))"
  "dict_get message_event (ascii ''content'') (PDict [])
     = Inr (PDict [(ascii ''type'', PStr (ascii ''text'')), (ascii ''text'', PStr (ascii ''hello''))])"
  "getitem message_event (ascii ''source'') = Inr (PDict [(ascii ''userId'', PStr (ascii ''u1''))])"
  by (simp_all add: message_event_def ascii_def)

lemma content_keys:
  "dict_get (PDict [(ascii ''type'', PStr (ascii ''text'')), (ascii ''text'', PStr (ascii ''hello''))])
     (ascii ''type'') PNone = Inr (PStr (ascii ''text''))"
  "dict_get (PDict [(ascii ''type'', PStr (ascii ''text'')), (ascii ''text'', PStr (ascii ''hello''))])
     (ascii ''text'') PNone = Inr (PStr (ascii ''hello''))"
  "getitem (PDict [(ascii ''userId'', PStr (ascii ''u1''))]) (ascii ''userId'') = Inr (PStr (ascii ''u1''))"
  by (simp_all add: ascii_def)

lemma message_not_verification:
  "ascii ''message'' \<noteq> ascii ''url_verification''" "ascii ''text'' \<noteq> ascii ''type''"
  by (simp_all add: ascii_def)

lemma callback_message_request:
  assumes "hmac_sha256 e = example_digest"
  shows "callback e example_config (message_request e) st
       = handle_message e example_config message_event st"
proof -
  have "get_json (message_request e) = Inr message_event"
    by (simp add: message_request_def signed_request_def)
  then show ?thesis
    by (simp add: validly_signed_callback [OF message_request_valid [OF assms]] dispatch_def
        message_event_keys message_not_verification)
qed

lemma handle_message_event:
  assumes "get_lineworks_user_name e cfg (PStr (ascii ''u1'')) st = (r, st1)"
  shows "handle_message e cfg message_event st =
     (case r of
        Inl ex \<Rightarrow> (Inl ex, st1)
      | Inr user_name \<Rightarrow>
          (case create_backlog_issue e cfg (subject_of e user_name) (PStr (ascii ''hello'')) st1 of
             (Inl ex, st2) \<Rightarrow> (Inl ex, st2)
           | (Inr created, st2) \<Rightarrow> (Inr (ReturnTuple (ascii ''OK'') 200), st2)))"
  using assms
  by (simp add: handle_message_def message_event_keys content_keys message_not_verification
      split: sum.splits)

lemma subject_tanaka: "subject_of e (PStr tanaka) = c9_summary"
  by (simp add: subject_of_def fmt_def line_works_prefix_def message_suffix_def tanaka_def
      c9_summary_def)

section \<open>The token cache\<close>

text \<open>
  Claim C1, as stated, at a concrete input. The cache holds the token \<open>""\<close> with
  \<open>expires_at = 2000\<close>, the clock reads 1000. The test at line 51 is a truth value test,
  and the empty string is false: the call signs a JWT, posts to the token endpoint,
  returns the token of the response and overwrites the cache.
\<close>

theorem empty_cached_token_counterexample:
  "time_time (example_env 1000 (Some (ascii ''jwt'')) token_only_net)
     < expires_at (access_token_cache stale_empty_token_state)
   \<and> token (access_token_cache stale_empty_token_state) = PStr []
   \<and> get_lineworks_access_token (example_env 1000 (Some (ascii ''jwt'')) token_only_net)
        example_config stale_empty_token_state
     = (Inr (PStr (ascii ''tok-1'')),
        \<lparr>access_token_cache = \<lparr>token = PStr (ascii ''tok-1''), expires_at = 4300\<rparr>,
         trace = [JwtEncode (token_payload example_config 1000) (ascii ''PEM''),
                  Http (token_request example_config (ascii ''jwt''))]\<rparr>)"
  by (simp add: example_defs get_lineworks_access_token_def store_token_def emit_def
        token_request_def raise_for_status_def ascii_def)

text \<open>
  Claim C1, amended. When the cached token is true under Python's truth value test (for
  a string: not empty) and \<open>expires_at\<close> is strictly greater than the current time, the
  call returns exactly the cached token and leaves the whole state as it was: the
  cache, and the trace, so no JWT is signed and no request is sent. And two fetches:
  if the first one finds no usable cached token, signs, and gets a response without an
  error status that carries a true \<open>access_token\<close> and an integer \<open>expires_in = n\<close>, then a
  second fetch at any time before \<open>first time + n - 300\<close> returns the same token, changes
  nothing, and the token endpoint was asked once in all.
\<close>

theorem cached_token_is_reused:
  "(truthy (token (access_token_cache st)) \<and> time_time e < expires_at (access_token_cache st)
      \<longrightarrow> get_lineworks_access_token e cfg st = (Inr (token (access_token_cache st)), st))
   \<and> (\<not> (truthy (token (access_token_cache st)) \<and> time_time e1 < expires_at (access_token_cache st))
       \<and> jwt_encode e1 (token_payload cfg (time_time e1)) (LINEWORKS_PRIVATE_KEY cfg) = Some a
       \<and> requests e1 (token_request cfg a) = Response r \<and> \<not> raise_for_status r
       \<and> json_body r = Some token_data
       \<and> getitem token_data (ascii ''access_token'') = Inr tok \<and> truthy tok
       \<and> getitem token_data (ascii ''expires_in'') = Inr (PInt n)
       \<and> time_time e2 < time_time e1 + n - 300
      \<longrightarrow> (case get_lineworks_access_token e1 cfg st of
             (r1, st1) \<Rightarrow>
               (case get_lineworks_access_token e2 cfg st1 of
                  (r2, st2) \<Rightarrow>
                    r1 = Inr tok \<and> r2 = Inr tok \<and> st2 = st1 \<and>
                    http_requests (trace st2) = http_requests (trace st) @ [token_request cfg a])))"
proof (intro conjI impI)
  assume "truthy (token (access_token_cache st)) \<and> time_time e < expires_at (access_token_cache st)"
  then show "get_lineworks_access_token e cfg st = (Inr (token (access_token_cache st)), st)"
    by (simp add: token_cache_hit)
next
  assume h: "\<not> (truthy (token (access_token_cache st)) \<and> time_time e1 < expires_at (access_token_cache st))
       \<and> jwt_encode e1 (token_payload cfg (time_time e1)) (LINEWORKS_PRIVATE_KEY cfg) = Some a
       \<and> requests e1 (token_request cfg a) = Response r \<and> \<not> raise_for_status r
       \<and> json_body r = Some token_data
       \<and> getitem token_data (ascii ''access_token'') = Inr tok \<and> truthy tok
       \<and> getitem token_data (ascii ''expires_in'') = Inr (PInt n)
       \<and> time_time e2 < time_time e1 + n - 300"
  define st1 where "st1 = (emit (Http (token_request cfg a))
        (emit (JwtEncode (token_payload cfg (time_time e1)) (LINEWORKS_PRIVATE_KEY cfg)) st))
        \<lparr>access_token_cache := \<lparr>token = tok, expires_at = time_time e1 + n - 300\<rparr>\<rparr>"
  from h have first: "get_lineworks_access_token e1 cfg st = (Inr tok, st1)"
    by (simp add: token_cache_miss store_token_ok st1_def)
  from h have second: "get_lineworks_access_token e2 cfg st1 = (Inr tok, st1)"
    using token_cache_hit [of st1 e2 cfg] by (simp add: st1_def)
  have "http_requests (trace st1) = http_requests (trace st) @ [token_request cfg a]"
    by (simp add: st1_def trace_emit http_requests_append)
  with first second
  show "case get_lineworks_access_token e1 cfg st of
             (r1, st1) \<Rightarrow>
               (case get_lineworks_access_token e2 cfg st1 of
                  (r2, st2) \<Rightarrow>
                    r1 = Inr tok \<and> r2 = Inr tok \<and> st2 = st1 \<and>
                    http_requests (trace st2) = http_requests (trace st) @ [token_request cfg a])"
    by simp
qed

text \<open>Claim C1, amended: both parts on concrete inputs (a hit at time 2000 on a token
  that expires at 4300; a fetch at 1000 with \<open>expires_in = 3600\<close> and a second at 4299).\<close>

theorem cached_token_is_reused_witness:
  "truthy (token (access_token_cache cached_state))
   \<and> time_time (example_env 2000 None token_only_net) < expires_at (access_token_cache cached_state)
   \<and> get_lineworks_access_token (example_env 2000 None token_only_net) example_config cached_state
       = (Inr (PStr (ascii ''tok-1'')), cached_state)
   \<and> (case get_lineworks_access_token (example_env 1000 (Some (ascii ''jwt'')) token_only_net)
            example_config empty_state of
        (r1, st1) \<Rightarrow>
          (case get_lineworks_access_token (example_env 4299 None token_only_net) example_config st1 of
             (r2, st2) \<Rightarrow>
               r1 = Inr (PStr (ascii ''tok-1'')) \<and> r2 = Inr (PStr (ascii ''tok-1'')) \<and> st2 = st1 \<and>
               http_requests (trace st2) = [token_request example_config (ascii ''jwt'')]))"
proof -
  let ?r = "\<lparr>status_code = 200, json_body = Some (PDict [(ascii ''access_token'', PStr (ascii ''tok-1'')), (ascii ''expires_in'', PInt 3600)])\<rparr>"
  have hit: "truthy (token (access_token_cache cached_state))
     \<and> time_time (example_env 2000 None token_only_net) < expires_at (access_token_cache cached_state)"
    by (simp add: example_defs ascii_def)
  have miss: "\<not> (truthy (token (access_token_cache empty_state))
        \<and> time_time (example_env 1000 (Some (ascii ''jwt'')) token_only_net) < expires_at (access_token_cache empty_state))
     \<and> jwt_encode (example_env 1000 (Some (ascii ''jwt'')) token_only_net)
         (token_payload example_config (time_time (example_env 1000 (Some (ascii ''jwt'')) token_only_net)))
         (LINEWORKS_PRIVATE_KEY example_config) = Some (ascii ''jwt'')
     \<and> requests (example_env 1000 (Some (ascii ''jwt'')) token_only_net)
         (token_request example_config (ascii ''jwt'')) = Response ?r
     \<and> \<not> raise_for_status ?r
     \<and> json_body ?r = Some (PDict [(ascii ''access_token'', PStr (ascii ''tok-1'')), (ascii ''expires_in'', PInt 3600)])
     \<and> getitem (PDict [(ascii ''access_token'', PStr (ascii ''tok-1'')), (ascii ''expires_in'', PInt 3600)]) (ascii ''access_token'') = Inr (PStr (ascii ''tok-1''))
     \<and> truthy (PStr (ascii ''tok-1''))
     \<and> getitem (PDict [(ascii ''access_token'', PStr (ascii ''tok-1'')), (ascii ''expires_in'', PInt 3600)]) (ascii ''expires_in'') = Inr (PInt 3600)
     \<and> time_time (example_env 4299 None token_only_net)
         < time_time (example_env 1000 (Some (ascii ''jwt'')) token_only_net) + 3600 - 300"
    by (simp add: example_defs token_request_def raise_for_status_def ascii_def)
  have cs: "access_token_cache cached_state = \<lparr>token = PStr (ascii ''tok-1''), expires_at = 4300\<rparr>"
    and tr: "trace empty_state = []"
    by (simp_all add: example_defs)
  from cached_token_is_reused [THEN conjunct1, rule_format, OF hit]
    cached_token_is_reused [THEN conjunct2, rule_format, OF miss]
  show ?thesis using hit by (simp add: cs tr)
qed

text \<open>
  Claim C2, as stated, at a concrete input. The cache is empty and \<open>jwt.encode\<close> raises
  (line 71): the call returns \<open>None\<close> at line 73 and no request reaches the token
  endpoint, so it is not the case that every such call performs exactly one exchange.
\<close>

theorem signing_failure_counterexample:
  "\<not> truthy (token (access_token_cache empty_state))
   \<and> get_lineworks_access_token (example_env 1000 None token_only_net) example_config empty_state
     = (Inr PNone,
        \<lparr>access_token_cache = initial_cache,
         trace = [JwtEncode (token_payload example_config 1000) (ascii ''PEM'')]\<rparr>)
   \<and> http_requests (trace (snd (get_lineworks_access_token
         (example_env 1000 None token_only_net) example_config empty_state))) = []"
  by (simp add: example_defs get_lineworks_access_token_def emit_def)

text \<open>
  Claim C2, amended. When the cache holds no true token or \<open>expires_at\<close> is not after
  the current time, and \<open>jwt.encode\<close> returns an assertion, the call sends exactly one
  request, the post to the token endpoint. If the response has no 4xx or 5xx status
  (every 2xx status is such) and its JSON body carries \<open>access_token\<close> and an integer
  \<open>expires_in = n\<close>, the call returns that token and the cache holds it with
  \<open>expires_at = now + n - 300\<close>.
\<close>

theorem expired_cache_exchanges_once:
  assumes "\<not> truthy (token (access_token_cache st)) \<or> expires_at (access_token_cache st) \<le> time_time e"
    and "jwt_encode e (token_payload cfg (time_time e)) (LINEWORKS_PRIVATE_KEY cfg) = Some a"
  shows "http_requests (trace (snd (get_lineworks_access_token e cfg st)))
           = http_requests (trace st) @ [token_request cfg a]
       \<and> (\<forall>r token_data tok n.
             requests e (token_request cfg a) = Response r \<and> \<not> raise_for_status r
             \<and> json_body r = Some token_data
             \<and> getitem token_data (ascii ''access_token'') = Inr tok
             \<and> getitem token_data (ascii ''expires_in'') = Inr (PInt n)
             \<longrightarrow> fst (get_lineworks_access_token e cfg st) = Inr tok
                 \<and> access_token_cache (snd (get_lineworks_access_token e cfg st))
                     = \<lparr>token = tok, expires_at = time_time e + n - 300\<rparr>)"
proof -
  from assms(1)
  have miss: "\<not> (truthy (token (access_token_cache st)) \<and> time_time e < expires_at (access_token_cache st))"
    by auto
  have one: "http_requests (trace (snd (get_lineworks_access_token e cfg st)))
           = http_requests (trace st) @ [token_request cfg a]"
    by (simp add: token_cache_miss_requests [OF miss assms(2)] http_requests_append)
  have stored: "fst (get_lineworks_access_token e cfg st) = Inr tok
       \<and> access_token_cache (snd (get_lineworks_access_token e cfg st))
           = \<lparr>token = tok, expires_at = time_time e + n - 300\<rparr>"
    if "requests e (token_request cfg a) = Response r" "\<not> raise_for_status r"
      "json_body r = Some token_data"
      "getitem token_data (ascii ''access_token'') = Inr tok"
      "getitem token_data (ascii ''expires_in'') = Inr (PInt n)"
    for r token_data tok n
    using that assms(2) by (simp add: token_cache_miss [OF miss] store_token_ok)
  from one stored show ?thesis by blast
qed

text \<open>Claim C2, amended: on the empty cache at time 1000, with \<open>expires_in = 3600\<close>.\<close>

theorem expired_cache_exchanges_once_witness:
  "token (access_token_cache empty_state) = PNone
   \<and> http_requests (trace (snd (get_lineworks_access_token
        (example_env 1000 (Some (ascii ''jwt'')) token_only_net) example_config empty_state)))
      = [token_request example_config (ascii ''jwt'')]
   \<and> fst (get_lineworks_access_token
        (example_env 1000 (Some (ascii ''jwt'')) token_only_net) example_config empty_state)
      = Inr (PStr (ascii ''tok-1''))
   \<and> access_token_cache (snd (get_lineworks_access_token
        (example_env 1000 (Some (ascii ''jwt'')) token_only_net) example_config empty_state))
      = \<lparr>token = PStr (ascii ''tok-1''), expires_at = 4300\<rparr>"
proof -
  let ?e = "example_env 1000 (Some (ascii ''jwt'')) token_only_net"
  let ?td = "PDict [(ascii ''access_token'', PStr (ascii ''tok-1'')), (ascii ''expires_in'', PInt 3600)]"
  let ?r = "\<lparr>status_code = 200, json_body = Some ?td\<rparr>"
  have none: "token (access_token_cache empty_state) = PNone"
    by (simp add: example_defs)
  then have h1: "\<not> truthy (token (access_token_cache empty_state))
      \<or> expires_at (access_token_cache empty_state) \<le> time_time ?e"
    by simp
  have h2: "jwt_encode ?e (token_payload example_config (time_time ?e))
              (LINEWORKS_PRIVATE_KEY example_config) = Some (ascii ''jwt'')"
    by (simp add: example_defs)
  have ok: "requests ?e (token_request example_config (ascii ''jwt'')) = Response ?r
      \<and> \<not> raise_for_status ?r \<and> json_body ?r = Some ?td
      \<and> getitem ?td (ascii ''access_token'') = Inr (PStr (ascii ''tok-1''))
      \<and> getitem ?td (ascii ''expires_in'') = Inr (PInt 3600)"
    by (simp add: example_defs token_request_def raise_for_status_def ascii_def)
  have t: "time_time ?e = 1000" "trace empty_state = []"
    by (simp_all add: example_defs)
  from expired_cache_exchanges_once [OF h1 h2, THEN conjunct1]
    expired_cache_exchanges_once [OF h1 h2, THEN conjunct2, rule_format, OF ok] none
  show ?thesis by (simp add: t)
qed

text \<open>
  Claim C7 at concrete inputs. (1) The post to the token endpoint raises a
  \<open>RequestException\<close>: the handler at lines 97 to 100 reads \<open>response.text\<close> with
  \<open>response\<close> unassigned, and \<open>UnboundLocalError\<close> leaves the function instead of
  \<open>None\<close>. (2) The response carries \<open>access_token\<close> and no \<open>expires_in\<close>: line 92 has
  stored the new token when line 94 raises \<open>KeyError\<close>, which is not caught; the cache
  is changed and no \<open>None\<close> is returned.
\<close>

theorem token_exchange_failure_raises:
  "get_lineworks_access_token token_down_env example_config empty_state
     = (Inl UnboundLocalError,
        \<lparr>access_token_cache = initial_cache,
         trace = [JwtEncode (token_payload example_config 1000) (ascii ''PEM''),
                  Http (token_request example_config (ascii ''jwt''))]\<rparr>)
   \<and> get_lineworks_access_token truncated_env example_config expired_state
     = (Inl KeyError,
        \<lparr>access_token_cache = \<lparr>token = PStr (ascii ''tok-2''), expires_at = 500\<rparr>,
         trace = [JwtEncode (token_payload example_config 1000) (ascii ''PEM''),
                  Http (token_request example_config (ascii ''jwt''))]\<rparr>)"
proof -
  have key: "LINEWORKS_PRIVATE_KEY example_config = ascii ''PEM''"
    by (simp add: example_config_def)
  have m1: "\<not> (truthy (token (access_token_cache empty_state))
      \<and> time_time token_down_env < expires_at (access_token_cache empty_state))"
    by (simp add: empty_state_def initial_cache_def)
  have m2: "\<not> (truthy (token (access_token_cache expired_state))
      \<and> time_time truncated_env < expires_at (access_token_cache expired_state))"
    by (simp add: expired_state_def truncated_env_def example_env_sel)
  have items: "ascii ''expires_in'' \<noteq> ascii ''access_token''"
    by (simp add: ascii_def)
  have a: "get_lineworks_access_token token_down_env example_config empty_state
     = (Inl UnboundLocalError,
        \<lparr>access_token_cache = initial_cache,
         trace = [JwtEncode (token_payload example_config 1000) (ascii ''PEM''),
                  Http (token_request example_config (ascii ''jwt''))]\<rparr>)"
    unfolding token_cache_miss [OF m1]
    by (simp add: key token_down_env_def example_env_sel example_net_sel emit_def empty_state_def)
  have b: "get_lineworks_access_token truncated_env example_config expired_state
     = (Inl KeyError,
        \<lparr>access_token_cache = \<lparr>token = PStr (ascii ''tok-2''), expires_at = 500\<rparr>,
         trace = [JwtEncode (token_payload example_config 1000) (ascii ''PEM''),
                  Http (token_request example_config (ascii ''jwt''))]\<rparr>)"
    unfolding token_cache_miss [OF m2]
    by (simp add: key truncated_env_def example_env_sel example_net_sel emit_def
        expired_state_def ok_response_def raise_for_status_def store_token_def items)
  from a b show ?thesis by simp
qed

text \<open>
  The failures the function does handle: when \<open>jwt.encode\<close> raises, when the token
  endpoint answers with a 4xx or 5xx status, and when the body of the answer is not
  JSON, the function returns \<open>None\<close> and the cache is what it was.
\<close>

lemma token_exchange_handled_failures:
  assumes "\<not> (truthy (token (access_token_cache st)) \<and> time_time e < expires_at (access_token_cache st))"
  shows "jwt_encode e (token_payload cfg (time_time e)) (LINEWORKS_PRIVATE_KEY cfg) = None \<Longrightarrow>
           fst (get_lineworks_access_token e cfg st) = Inr PNone
           \<and> access_token_cache (snd (get_lineworks_access_token e cfg st)) = access_token_cache st
           \<and> http_requests (trace (snd (get_lineworks_access_token e cfg st)))
               = http_requests (trace st)"
    and "jwt_encode e (token_payload cfg (time_time e)) (LINEWORKS_PRIVATE_KEY cfg) = Some a \<Longrightarrow>
         requests e (token_request cfg a) = Response r \<Longrightarrow>
         raise_for_status r \<or> json_body r = None \<Longrightarrow>
           fst (get_lineworks_access_token e cfg st) = Inr PNone
           \<and> access_token_cache (snd (get_lineworks_access_token e cfg st)) = access_token_cache st
           \<and> http_requests (trace (snd (get_lineworks_access_token e cfg st)))
               = http_requests (trace st) @ [token_request cfg a]"
  by (auto simp: token_cache_miss [OF assms] Let_def trace_emit cache_emit http_requests_append)

section \<open>Ticket creation\<close>

text \<open>
  Claim C10. For every subject and description, if one of the five Backlog settings
  (space id, API key, project id, issue type id, priority id) is unset or empty,
  \<open>create_backlog_issue\<close> returns \<open>False\<close> and sends no HTTP request (nor does it touch the
  token cache).
\<close>

theorem create_backlog_issue_missing_settings:
  assumes "unset_or_empty (BACKLOG_SPACE_ID cfg) \<or> unset_or_empty (BACKLOG_API_KEY cfg)
         \<or> unset_or_empty (BACKLOG_PROJECT_ID cfg) \<or> unset_or_empty (BACKLOG_ISSUE_TYPE_ID cfg)
         \<or> unset_or_empty (BACKLOG_PRIORITY_ID cfg)"
  shows "fst (create_backlog_issue e cfg subject description st) = Inr False
       \<and> http_requests (trace (snd (create_backlog_issue e cfg subject description st)))
           = http_requests (trace st)
       \<and> access_token_cache (snd (create_backlog_issue e cfg subject description st))
           = access_token_cache st"
proof -
  have falsy: "\<not> truthy (getenv_val v)" if "unset_or_empty v" for v
    using that by (auto simp: unset_or_empty_def)
  from assms have "\<not> list_all truthy (backlog_settings cfg)"
    by (auto simp: backlog_settings_def dest: falsy)
  then show ?thesis
    by (simp add: create_backlog_issue_def Let_def trace_emit cache_emit http_requests_append)
qed

text \<open>Claim C10 on a configuration whose project id is the empty string.\<close>

theorem create_backlog_issue_missing_settings_witness:
  "unset_or_empty (BACKLOG_PROJECT_ID no_project_config)
   \<and> fst (create_backlog_issue (example_env 1000 None token_only_net) no_project_config
            (ascii ''subject'') (PStr (ascii ''hello'')) empty_state) = Inr False
   \<and> http_requests (trace (snd (create_backlog_issue (example_env 1000 None token_only_net)
            no_project_config (ascii ''subject'') (PStr (ascii ''hello'')) empty_state))) = []"
proof -
  have h: "unset_or_empty (BACKLOG_PROJECT_ID no_project_config)"
    by (simp add: no_project_config_def unset_or_empty_def)
  have t: "trace empty_state = []" by (simp add: example_defs)
  from h create_backlog_issue_missing_settings [of no_project_config
      "example_env 1000 None token_only_net" "ascii ''subject''" "PStr (ascii ''hello'')" empty_state]
  show ?thesis by (simp add: t)
qed

section \<open>Signature verification\<close>

text \<open>
  Claim C4 at a concrete input. The body is \<open>{}\<close> and the header carries the right
  signature with one bit of its first character flipped (\<open>e\<close>, 0x65). With bit 7
  flipped (0xE5) the header is not ASCII: \<open>hmac.compare_digest\<close> raises \<open>TypeError\<close>,
  nothing catches it, and the request ends with status 500 where the claim, and
  lines 170 to 171, say 401. With bit 0 flipped (\<open>d\<close>) the same request is answered
  with 401.
\<close>

theorem high_bit_signature_raises:
  "expected_signature offline_env example_key (data high_bit_request) = example_signature_text
   \<and> x_works_signature high_bit_request
       = Some (229 # ascii ''31ib3RzZWNyZXQAAAAAAAAAAAAAAAAAAAAAAAAAAAA='')
   \<and> verify_signature offline_env example_config high_bit_request = Inl TypeError
   \<and> callback offline_env example_config high_bit_request empty_state = (Inl TypeError, empty_state)
   \<and> fst (flask_response (fst (callback offline_env example_config high_bit_request empty_state)))
       = 500
   \<and> expected_signature offline_env example_key (data low_bit_request) = example_signature_text
   \<and> x_works_signature low_bit_request
       = Some (ascii ''d31ib3RzZWNyZXQAAAAAAAAAAAAAAAAAAAAAAAAAAAA='')
   \<and> callback offline_env example_config low_bit_request empty_state
       = (Inl (HTTPException 401), empty_state)
   \<and> fst (flask_response (fst (callback offline_env example_config low_bit_request empty_state)))
       = 401"
proof -
  have v: "verify_signature offline_env example_config high_bit_request = Inl TypeError"
    by (simp add: verify_signature_def high_bit_request_def example_config_def
        example_key_encoded offline_signature flipped_signatures compare_digest_def is_ascii_def)
  have low: "flip_bit_at 0 0 example_signature_text \<noteq> []"
    "is_ascii (flip_bit_at 0 0 example_signature_text)"
    "flip_bit_at 0 0 example_signature_text \<noteq> example_signature_text"
    unfolding flipped_signatures
    by (simp_all add: example_signature_text_def is_ascii_def ascii_def)
  have asc: "is_ascii example_signature_text"
    using expected_signature_ascii [of offline_env example_key "raw ''{}''"]
    by (simp add: offline_signature)
  have w: "verify_signature offline_env example_config low_bit_request = Inl (HTTPException 401)"
    using low asc
    by (simp add: verify_signature_def low_bit_request_def example_config_def
        example_key_encoded offline_signature compare_digest_def)
  from v w show ?thesis
    by (simp add: callback_def)
       (simp add: high_bit_request_def low_bit_request_def offline_signature flipped_signatures)
qed

text \<open>
  What the verification does on the signature it expects for \<open>request.data\<close> and on that
  signature with one bit flipped: it accepts the signature itself, answers 401 when one
  of the bits 0 to 6 of a character is flipped, and raises \<open>TypeError\<close> when bit 7 is.
\<close>

lemma signature_bit_flips:
  assumes "LINEWORKS_BOT_SECRET cfg = Some secret" and "utf8_encode secret = Some key"
    and "length (hmac_sha256 e key (data req)) = 32"
    and "x_works_signature req = Some (expected_signature e key (data req))"
  shows "verify_signature e cfg req = Inr ()"
    and "i < length (expected_signature e key (data req)) \<Longrightarrow> k < 7 \<Longrightarrow>
         verify_signature e cfg
           (req\<lparr>x_works_signature := Some (flip_bit_at i k (expected_signature e key (data req)))\<rparr>)
           = Inl (HTTPException 401)"
    and "i < length (expected_signature e key (data req)) \<Longrightarrow>
         verify_signature e cfg
           (req\<lparr>x_works_signature := Some (flip_bit_at i 7 (expected_signature e key (data req)))\<rparr>)
           = Inl TypeError"
proof -
  let ?sig = "expected_signature e key (data req)"
  from assms(3) have "hmac_sha256 e key (data req) \<noteq> []" by auto
  then have ne: "?sig \<noteq> []" by (rule expected_signature_nonempty)
  have asc: "is_ascii ?sig" by (rule expected_signature_ascii)
  have verify: "verify_signature e cfg (req\<lparr>x_works_signature := Some s\<rparr>) =
     (if is_ascii s
      then if s = ?sig then Inr () else Inl (HTTPException 401)
      else Inl TypeError)" if "s \<noteq> []" for s
    using verify_signature_configured [OF assms(1,2) _ that,
        of "req\<lparr>x_works_signature := Some s\<rparr>" e]
    by simp
  from assms(4) have "req\<lparr>x_works_signature := Some ?sig\<rparr> = req" by simp
  with verify [OF ne] asc show "verify_signature e cfg req = Inr ()" by simp
  show "verify_signature e cfg (req\<lparr>x_works_signature := Some (flip_bit_at i k ?sig)\<rparr>)
      = Inl (HTTPException 401)" if "i < length ?sig" "k < 7"
  proof -
    have "flip_bit_at i k ?sig \<noteq> ?sig"
      using that(1) by (rule flip_bit_at_changes) simp
    moreover have "is_ascii (flip_bit_at i k ?sig)"
      using asc that(2) by (rule flip_bit_at_low_ascii)
    ultimately show ?thesis
      by (simp add: verify [OF flip_bit_at_nonempty [OF ne]])
  qed
  show "verify_signature e cfg (req\<lparr>x_works_signature := Some (flip_bit_at i 7 ?sig)\<rparr>)
      = Inl TypeError" if "i < length ?sig"
    using flip_bit_at_high_not_ascii [OF asc that]
    by (simp add: verify [OF flip_bit_at_nonempty [OF ne]])
qed

text \<open>
  Claim C5, as stated, at a concrete input. The header is present and empty, so it does
  not match the expected signature; \<open>not signature\<close> at line 160 holds for the empty
  string and the answer is 400, not 401.
\<close>

theorem empty_signature_counterexample:
  "x_works_signature empty_signature_request = Some []
   \<and> [] \<noteq> expected_signature offline_env example_key (data empty_signature_request)
   \<and> callback offline_env example_config empty_signature_request empty_state
       = (Inl (HTTPException 400), empty_state)
   \<and> fst (flask_response (fst (callback offline_env example_config empty_signature_request
        empty_state))) = 400"
proof -
  have "hmac_sha256 offline_env = example_digest"
    by (simp add: offline_env_def example_env_def)
  then have "expected_signature offline_env example_key (raw ''{}'') \<noteq> []"
    by (simp add: example_signature ascii_def)
  then show ?thesis
    by (simp add: empty_signature_request_def callback_def verify_signature_def)
qed

text \<open>
  Claim C5, amended. A request with no \<open>X-Works-Signature\<close> header, or with an empty one,
  is answered with 400. A request whose header is a non-empty ASCII string other than
  the expected signature, the secret being configured and encodable, is answered with
  401. In both cases the state is what it was: the trace has no new event (no token
  exchange, no user lookup, no ticket creation) and the cache is untouched.
\<close>

theorem unsigned_request_rejected:
  "(x_works_signature req = None \<or> x_works_signature req = Some []
      \<longrightarrow> fst (flask_response (fst (callback e cfg req st))) = 400
          \<and> snd (callback e cfg req st) = st)
   \<and> (x_works_signature req = Some signature \<and> signature \<noteq> [] \<and> is_ascii signature
       \<and> LINEWORKS_BOT_SECRET cfg = Some secret \<and> utf8_encode secret = Some key
       \<and> signature \<noteq> expected_signature e key (data req)
      \<longrightarrow> fst (flask_response (fst (callback e cfg req st))) = 401
          \<and> snd (callback e cfg req st) = st)"
proof (rule conjI; rule impI)
  assume "x_works_signature req = None \<or> x_works_signature req = Some []"
  then have "verify_signature e cfg req = Inl (HTTPException 400)"
    by (auto simp: verify_signature_def)
  then show "fst (flask_response (fst (callback e cfg req st))) = 400
      \<and> snd (callback e cfg req st) = st"
    by (simp add: callback_def)
next
  assume h: "x_works_signature req = Some signature \<and> signature \<noteq> [] \<and> is_ascii signature
       \<and> LINEWORKS_BOT_SECRET cfg = Some secret \<and> utf8_encode secret = Some key
       \<and> signature \<noteq> expected_signature e key (data req)"
  then have "verify_signature e cfg req = Inl (HTTPException 401)"
    by (simp add: verify_signature_configured [of cfg secret key req signature])
  then show "fst (flask_response (fst (callback e cfg req st))) = 401
      \<and> snd (callback e cfg req st) = st"
    by (simp add: callback_def)
qed

text \<open>Claim C5, amended: a request without the header and one signed \<open>AAAA\<close>.\<close>

theorem unsigned_request_rejected_witness:
  "x_works_signature unsigned_request = None
   \<and> fst (flask_response (fst (callback offline_env example_config unsigned_request empty_state))) = 400
   \<and> snd (callback offline_env example_config unsigned_request empty_state) = empty_state
   \<and> x_works_signature wrong_signature_request = Some (ascii ''AAAA'')
   \<and> expected_signature offline_env example_key (data wrong_signature_request)
       = ascii ''e31ib3RzZWNyZXQAAAAAAAAAAAAAAAAAAAAAAAAAAAA=''
   \<and> fst (flask_response (fst (callback offline_env example_config wrong_signature_request
        empty_state))) = 401
   \<and> snd (callback offline_env example_config wrong_signature_request empty_state) = empty_state"
proof -
  have d: "hmac_sha256 offline_env = example_digest"
    by (simp add: offline_env_def example_env_def)
  have sig: "expected_signature offline_env example_key (data wrong_signature_request)
       = ascii ''e31ib3RzZWNyZXQAAAAAAAAAAAAAAAAAAAAAAAAAAAA=''"
    by (simp add: wrong_signature_request_def example_signature [OF d])
  have h1: "x_works_signature unsigned_request = None \<or> x_works_signature unsigned_request = Some []"
    by (simp add: unsigned_request_def)
  have h2: "x_works_signature wrong_signature_request = Some (ascii ''AAAA'')
     \<and> ascii ''AAAA'' \<noteq> [] \<and> is_ascii (ascii ''AAAA'')
     \<and> LINEWORKS_BOT_SECRET example_config = Some (ascii ''botsecret'')
     \<and> utf8_encode (ascii ''botsecret'') = Some example_key
     \<and> ascii ''AAAA'' \<noteq> expected_signature offline_env example_key (data wrong_signature_request)"
    unfolding sig
    by (simp add: wrong_signature_request_def example_config_def example_key_encoded is_ascii_def)
       (simp add: ascii_def)
  from unsigned_request_rejected [THEN conjunct1, rule_format, OF h1]
    unsigned_request_rejected [THEN conjunct2, rule_format, OF h2] sig
  show ?thesis by (simp add: unsigned_request_def wrong_signature_request_def)
qed

section \<open>The webhook\<close>




text \<open>
  Claim C9. For the validly signed request whose body parses to
  \<open>{"type":"message","source":{"userId":"u1"},"content":{"type":"text","text":"hello"}}\<close>,
  when the user lookup for \<open>u1\<close> yields the display name U+7530 U+4E2D, the handler calls
  \<open>create_backlog_issue\<close> exactly once, with the summary U+3010 \<open>LINE WORKS\<close> U+3011
  U+7530 U+4E2D U+3055 U+3093 U+304B U+3089 U+306E U+30E1 U+30C3 U+30BB U+30FC U+30B8 and
  the description \<open>hello\<close>. When the five Backlog settings are set, that call sends one
  request to the tracker, after those of the lookup, with that summary and description.
\<close>

theorem message_creates_ticket:
  assumes "validly_signed e cfg req"
    and "get_json req =
      Inr (PDict [(ascii ''type'', PStr (ascii ''message'')),
                  (ascii ''source'', PDict [(ascii ''userId'', PStr (ascii ''u1''))]),
                  (ascii ''content'', PDict [(ascii ''type'', PStr (ascii ''text'')),
                                             (ascii ''text'', PStr (ascii ''hello''))])])"
    and "fst (get_lineworks_user_name e cfg (PStr (ascii ''u1'')) st) = Inr (PStr [0x7530, 0x4E2D])"
  shows "ticket_calls (trace (snd (callback e cfg req st)))
           = ticket_calls (trace st) @
             [([0x3010] @ ascii ''LINE WORKS'' @
               [0x3011, 0x7530, 0x4E2D, 0x3055, 0x3093, 0x304B, 0x3089, 0x306E, 0x30E1, 0x30C3,
                0x30BB, 0x30FC, 0x30B8],
               PStr (ascii ''hello''))]
       \<and> (list_all truthy (backlog_settings cfg) \<longrightarrow>
            http_requests (trace (snd (callback e cfg req st)))
              = http_requests (trace (snd (get_lineworks_user_name e cfg (PStr (ascii ''u1'')) st))) @
                [issue_request e cfg
                   ([0x3010] @ ascii ''LINE WORKS'' @
                    [0x3011, 0x7530, 0x4E2D, 0x3055, 0x3093, 0x304B, 0x3089, 0x306E, 0x30E1,
                     0x30C3, 0x30BB, 0x30FC, 0x30B8])
                   (PStr (ascii ''hello''))])"
proof -
  let ?dat = "PDict [(ascii ''type'', PStr (ascii ''message'')),
                  (ascii ''source'', PDict [(ascii ''userId'', PStr (ascii ''u1''))]),
                  (ascii ''content'', PDict [(ascii ''type'', PStr (ascii ''text'')),
                                             (ascii ''text'', PStr (ascii ''hello''))])]"
  let ?content = "PDict [(ascii ''type'', PStr (ascii ''text'')),
                         (ascii ''text'', PStr (ascii ''hello''))]"
  let ?summary = "[0x3010] @ ascii ''LINE WORKS'' @
               [0x3011, 0x7530, 0x4E2D, 0x3055, 0x3093, 0x304B, 0x3089, 0x306E, 0x30E1, 0x30C3,
                0x30BB, 0x30FC, 0x30B8 :: nat]"
  obtain st1 where lookup:
    "get_lineworks_user_name e cfg (PStr (ascii ''u1'')) st = (Inr (PStr [0x7530, 0x4E2D]), st1)"
    using assms(3) by (cases "get_lineworks_user_name e cfg (PStr (ascii ''u1'')) st") simp
  have subject: "subject_of e (PStr [0x7530, 0x4E2D]) = ?summary"
    by (simp add: subject_of_def fmt_def line_works_prefix_def message_suffix_def)
  have keys: "dict_get ?dat (ascii ''type'') PNone = Inr (PStr (ascii ''message''))"
    "dict_get ?dat (ascii ''content'') (PDict []) = Inr ?content"
    "dict_get ?content (ascii ''type'') PNone = Inr (PStr (ascii ''text''))"
    "getitem ?dat (ascii ''source'') = Inr (PDict [(ascii ''userId'', PStr (ascii ''u1''))])"
    "getitem (PDict [(ascii ''userId'', PStr (ascii ''u1''))]) (ascii ''userId'') = Inr (PStr (ascii ''u1''))"
    "dict_get ?content (ascii ''text'') PNone = Inr (PStr (ascii ''hello''))"
    by (simp_all add: ascii_def)
  have differ: "PStr (ascii ''message'') \<noteq> PStr (ascii ''url_verification'')"
    by (simp add: ascii_def)
  have "callback e cfg req st = handle_message e cfg ?dat st"
    using assms(1,2) keys(1) differ by (simp add: validly_signed_callback dispatch_def)
  also note handle_message_text [OF keys(2-6) lookup]
  finally have "snd (callback e cfg req st)
      = snd (create_backlog_issue e cfg ?summary (PStr (ascii ''hello'')) st1)"
    by (simp only: snd_after_create subject)
  moreover have "ticket_calls (trace st1) = ticket_calls (trace st)"
    using user_name_ticket_calls [of e cfg "PStr (ascii ''u1'')" st] lookup by simp
  moreover have "st1 = snd (get_lineworks_user_name e cfg (PStr (ascii ''u1'')) st)"
    using lookup by simp
  ultimately show ?thesis
    by (simp add: create_ticket_calls create_http_requests)
qed

text \<open>Claim C9 with every service answering: the three requests of the run are the token
  exchange, the user lookup and the ticket.\<close>

theorem message_creates_ticket_witness:
  "validly_signed online_env example_config (message_request online_env)
   \<and> get_json (message_request online_env) = Inr message_event
   \<and> fst (get_lineworks_user_name online_env example_config (PStr (ascii ''u1'')) empty_state)
       = Inr (PStr tanaka)
   \<and> ticket_calls (trace (snd (callback online_env example_config (message_request online_env)
         empty_state))) = [(c9_summary, PStr (ascii ''hello''))]
   \<and> http_requests (trace (snd (callback online_env example_config (message_request online_env)
         empty_state)))
       = [token_request example_config (ascii ''jwt''),
          user_request online_env (PStr (ascii ''u1'')) (PStr (ascii ''tok-1'')),
          issue_request online_env example_config c9_summary (PStr (ascii ''hello''))]"
proof -
  have d: "hmac_sha256 online_env = example_digest"
    by (simp add: online_env_def example_env_sel)
  have v: "validly_signed online_env example_config (message_request online_env)"
    by (rule message_request_valid [OF d])
  have j: "get_json (message_request online_env) =
      Inr (PDict [(ascii ''type'', PStr (ascii ''message'')),
                  (ascii ''source'', PDict [(ascii ''userId'', PStr (ascii ''u1''))]),
                  (ascii ''content'', PDict [(ascii ''type'', PStr (ascii ''text'')),
                                             (ascii ''text'', PStr (ascii ''hello''))])])"
    by (simp add: message_request_def signed_request_def message_event_def)
  have l: "fst (get_lineworks_user_name online_env example_config (PStr (ascii ''u1'')) empty_state)
      = Inr (PStr [0x7530, 0x4E2D])"
    by (simp add: online_env_lookup tanaka_def)
  have before: "ticket_calls (trace empty_state) = []"
    "http_requests (trace (snd (get_lineworks_user_name online_env example_config
        (PStr (ascii ''u1'')) empty_state)))
      = [token_request example_config (ascii ''jwt''),
         user_request online_env (PStr (ascii ''u1'')) (PStr (ascii ''tok-1''))]"
    by (simp add: empty_state_def) (simp add: online_env_lookup trace_emit after_token_def)
  from message_creates_ticket [OF v j l] v j l before example_settings
  show ?thesis by (simp add: c9_summary_def message_event_def tanaka_def)
qed

text \<open>
  Claim C8 at a concrete input. A signed text message from \<open>u1\<close>, the token exchange
  succeeds, the user lookup raises a \<open>RequestException\<close>: the handler at lines 120 to
  123 reads \<open>response.text\<close> with \<open>response\<close> unassigned, \<open>get_lineworks_user_name\<close>
  raises \<open>UnboundLocalError\<close> instead of returning the placeholder,
  \<open>create_backlog_issue\<close> is never called and the answer is 500.
\<close>

theorem user_lookup_failure_raises:
  "validly_signed lookup_down_env example_config (message_request lookup_down_env)
   \<and> fst (get_lineworks_user_name lookup_down_env example_config (PStr (ascii ''u1'')) empty_state)
       = Inl UnboundLocalError
   \<and> fst (callback lookup_down_env example_config (message_request lookup_down_env) empty_state)
       = Inl UnboundLocalError
   \<and> fst (flask_response (fst (callback lookup_down_env example_config
         (message_request lookup_down_env) empty_state))) = 500
   \<and> ticket_calls (trace (snd (callback lookup_down_env example_config
         (message_request lookup_down_env) empty_state))) = []"
proof -
  have d: "hmac_sha256 lookup_down_env = example_digest"
    by (simp add: lookup_down_env_def example_env_sel)
  have "callback lookup_down_env example_config (message_request lookup_down_env) empty_state
      = (Inl UnboundLocalError,
         emit (Http (user_request lookup_down_env (PStr (ascii ''u1'')) (PStr (ascii ''tok-1''))))
           after_token)"
    by (simp add: callback_message_request [OF d] handle_message_event [OF lookup_down_env_lookup])
  with message_request_valid [OF d] show ?thesis
    by (simp add: lookup_down_env_lookup trace_emit after_token_def)
qed

text \<open>
  The lookup failures that do give a placeholder: no token (\<open>None\<close> from the token
  function), a 4xx or 5xx status or a body that is not JSON, and a JSON object without
  \<open>userName\<close> or without \<open>displayName\<close> in it.
\<close>

lemma user_lookup_placeholders:
  assumes "get_lineworks_access_token e cfg st = (Inr tok, st1)"
  shows "\<not> truthy tok \<Longrightarrow>
           get_lineworks_user_name e cfg user_id st = (Inr (PStr unknown_user_token_error), st1)"
    and "truthy tok \<Longrightarrow> requests e (user_request e user_id tok) = Response r \<Longrightarrow>
         raise_for_status r \<or> json_body r = None \<Longrightarrow>
           get_lineworks_user_name e cfg user_id st
             = (Inr (PStr unknown_user_api_error), emit (Http (user_request e user_id tok)) st1)"
    and "truthy tok \<Longrightarrow> requests e (user_request e user_id tok) = Response r \<Longrightarrow>
         \<not> raise_for_status r \<Longrightarrow> json_body r = Some (PDict kvs) \<Longrightarrow>
         map_of kvs (ascii ''userName'') = None
           \<or> (\<exists>name. map_of kvs (ascii ''userName'') = Some (PDict name)
                 \<and> map_of name (ascii ''displayName'') = None) \<Longrightarrow>
           get_lineworks_user_name e cfg user_id st
             = (Inr (PStr unknown_user), emit (Http (user_request e user_id tok)) st1)"
  using assms by (auto simp: get_lineworks_user_name_def display_name_def Let_def)

text \<open>
  Claim C3 at concrete inputs, none of which is answered with 200 although the
  signature is valid. (1) The tracker cannot be reached: the handler at lines 148 to
  151 reads \<open>response.text\<close> with \<open>response\<close> unassigned, \<open>UnboundLocalError\<close> leaves
  \<open>callback\<close>, status 500. (2) A text message without \<open>source\<close>: \<open>KeyError\<close> at line 182,
  status 500. (3) A \<open>url_verification\<close> without \<open>challenge\<close>: the view returns \<open>None\<close>,
  status 500. (4) A body that is not JSON: \<open>request.get_json()\<close> aborts with 400.
\<close>

theorem signed_request_server_error:
  "validly_signed ticket_down_env example_config (message_request ticket_down_env)
   \<and> fst (callback ticket_down_env example_config (message_request ticket_down_env) empty_state)
       = Inl UnboundLocalError
   \<and> fst (flask_response (fst (callback ticket_down_env example_config
         (message_request ticket_down_env) empty_state))) = 500
   \<and> validly_signed offline_env example_config no_source_request
   \<and> callback offline_env example_config no_source_request empty_state = (Inl KeyError, empty_state)
   \<and> fst (flask_response (fst (callback offline_env example_config no_source_request
         empty_state))) = 500
   \<and> validly_signed offline_env example_config no_challenge_request
   \<and> callback offline_env example_config no_challenge_request empty_state
       = (Inr (ReturnValue PNone), empty_state)
   \<and> fst (flask_response (fst (callback offline_env example_config no_challenge_request
         empty_state))) = 500
   \<and> validly_signed offline_env example_config not_json_request
   \<and> fst (flask_response (fst (callback offline_env example_config not_json_request
         empty_state))) = 400"
proof -
  have d: "hmac_sha256 ticket_down_env = example_digest"
    by (simp add: ticket_down_env_def example_env_sel)
  have down: "requests ticket_down_env
      (issue_request ticket_down_env example_config c9_summary (PStr (ascii ''hello'')))
      = RequestException"
    by (simp add: ticket_down_env_def example_env_sel example_net_sel)
  have a: "fst (callback ticket_down_env example_config (message_request ticket_down_env) empty_state)
      = Inl UnboundLocalError"
    by (simp add: callback_message_request [OF d] handle_message_event [OF ticket_down_env_lookup]
        subject_tanaka create_down [OF example_settings down])
  have v1: "validly_signed offline_env example_config no_source_request"
    unfolding no_source_request_def by (rule signed_request_valid [OF offline_digest])
  have v2: "validly_signed offline_env example_config no_challenge_request"
    unfolding no_challenge_request_def by (rule signed_request_valid [OF offline_digest])
  have v3: "validly_signed offline_env example_config not_json_request"
    unfolding not_json_request_def by (rule signed_request_valid [OF offline_digest])
  have b: "callback offline_env example_config no_source_request empty_state
      = (Inl KeyError, empty_state)"
    unfolding validly_signed_callback [OF v1]
    by (simp add: dispatch_def handle_message_def no_source_request_def signed_request_def ascii_def)
  have c: "callback offline_env example_config no_challenge_request empty_state
      = (Inr (ReturnValue PNone), empty_state)"
    unfolding validly_signed_callback [OF v2]
    by (simp add: dispatch_def no_challenge_request_def signed_request_def ascii_def)
  have e: "callback offline_env example_config not_json_request empty_state
      = (Inl (HTTPException 400), empty_state)"
    unfolding validly_signed_callback [OF v3]
    by (simp add: dispatch_def not_json_request_def signed_request_def)
  from a b c e v1 v2 v3 message_request_valid [OF d] show ?thesis by simp
qed

end
